theory Spec2Isabelle
  imports Main
begin

section \<open>Strings as the JavaScript source uses them\<close>

text \<open>
  A JavaScript string is modelled as a \<open>string\<close> of ASCII characters. The case
  conversions, \<open>trim\<close> and the regular-expression classes \<open>\s\<close>, \<open>\w\<close>, \<open>\d\<close> and
  \<open>.\<close> are the ASCII parts of the JavaScript ones; SQL text outside ASCII is not covered
  by this development.
\<close>

definition is_space :: "char \<Rightarrow> bool" where
  "is_space c = (c \<in> set [CHR 0x09, CHR 0x0A, CHR 0x0B, CHR 0x0C, CHR 0x0D, CHR '' ''])"

definition is_line_terminator :: "char \<Rightarrow> bool" where
  "is_line_terminator c = (c \<in> set [CHR 0x0A, CHR 0x0D])"

definition is_digit :: "char \<Rightarrow> bool" where
  "is_digit c = (c \<in> set ''0123456789'')"

definition is_word :: "char \<Rightarrow> bool" where
  "is_word c = (c \<in> set ''ABCDEFGHIJKLMNOPQRSTUVWXYZabcdefghijklmnopqrstuvwxyz0123456789_'')"

definition toUpperCase_char :: "char \<Rightarrow> char" where
  "toUpperCase_char c =
     (case map_of (zip ''abcdefghijklmnopqrstuvwxyz'' ''ABCDEFGHIJKLMNOPQRSTUVWXYZ'') c of
        Some u \<Rightarrow> u
      | None \<Rightarrow> c)"

definition toLowerCase_char :: "char \<Rightarrow> char" where
  "toLowerCase_char c =
     (case map_of (zip ''ABCDEFGHIJKLMNOPQRSTUVWXYZ'' ''abcdefghijklmnopqrstuvwxyz'') c of
        Some l \<Rightarrow> l
      | None \<Rightarrow> c)"

definition toUpperCase :: "string \<Rightarrow> string" where
  "toUpperCase s = map toUpperCase_char s"

definition toLowerCase :: "string \<Rightarrow> string" where
  "toLowerCase s = map toLowerCase_char s"

definition trim :: "string \<Rightarrow> string" where
  "trim s = rev (dropWhile is_space (rev (dropWhile is_space s)))"

fun startsWith :: "string \<Rightarrow> string \<Rightarrow> bool" where
  "startsWith s [] = True"
| "startsWith [] (p # ps) = False"
| "startsWith (c # cs) (p # ps) = (c = p \<and> startsWith cs ps)"

fun includes_str :: "string \<Rightarrow> string \<Rightarrow> bool" where
  "includes_str [] p = (p = [])"
| "includes_str (c # cs) p = (startsWith (c # cs) p \<or> includes_str cs p)"

fun join :: "string \<Rightarrow> string list \<Rightarrow> string" where
  "join sep [] = []"
| "join sep [x] = x"
| "join sep (x # y # ys) = x @ sep @ join sep (y # ys)"

text \<open>Decimal rendering of a number inside a template literal.\<close>

fun digits :: "nat \<Rightarrow> string" where
  "digits n = (if n < 10 then [''0123456789'' ! n]
               else digits (n div 10) @ [''0123456789'' ! (n mod 10)])"

declare digits.simps [simp del]

definition show_int :: "int \<Rightarrow> string" where
  "show_int i = (if i < 0 then CHR ''-'' # digits (nat (- i)) else digits (nat i))"

section \<open>Numbers\<close>

text \<open>
  A JavaScript number that holds an integer is modelled by that integer. Every integer of
  magnitude up to \<open>2^53\<close> is such a number, and \<open>show_int\<close> is its rendering (beyond
  \<open>2^53\<close> JavaScript prints the shortest digits that identify the number). The sum or
  difference of two numbers is the exact result rounded to the nearest number, a tie
  going to the even significand: \<open>to_double\<close> keeps the 53 leading bits of an integer.
  Results beyond the range of a double (\<open>2^1024\<close>) are not modelled.
\<close>

fun bit_length :: "nat \<Rightarrow> nat" where
  "bit_length n = (if n = 0 then 0 else Suc (bit_length (n div 2)))"

declare bit_length.simps [simp del]

definition to_double :: "int \<Rightarrow> int" where
  "to_double x =
     (let a = nat \<bar>x\<bar>;
          ulp = 2 ^ (bit_length a - 53);
          q = a div ulp;
          r = a mod ulp;
          rounded = (if 2 * r < ulp \<or> (2 * r = ulp \<and> even q) then q else q + 1)
      in sgn x * int (rounded * ulp))"

definition js_add :: "int \<Rightarrow> int \<Rightarrow> int" where
  "js_add a b = to_double (a + b)"

definition js_sub :: "int \<Rightarrow> int \<Rightarrow> int" where
  "js_sub a b = to_double (a - b)"

section \<open>Regular expressions of the source, written out\<close>

text \<open>
  Each matcher below is one regular expression of \<open>index.js\<close>, unfolded by hand.
  \<open>match_lit\<close> is a literal, \<open>skip_ws1\<close> is a greedy \<open>\s+\<close> (what follows it in
  every pattern starts with a non-space character, so giving characters back never
  helps), and \<open>search\<close> tries the start positions from left to right, as an unanchored
  match does.
\<close>

definition match_lit :: "string \<Rightarrow> string \<Rightarrow> string option" where
  "match_lit lit s = (if startsWith s lit then Some (drop (length lit) s) else None)"

definition skip_ws1 :: "string \<Rightarrow> string option" where
  "skip_ws1 s = (case s of
                   [] \<Rightarrow> None
                 | c # cs \<Rightarrow> if is_space c then Some (dropWhile is_space cs) else None)"

fun search :: "(string \<Rightarrow> 'a option) \<Rightarrow> string \<Rightarrow> 'a option" where
  "search m [] = m []"
| "search m (c # cs) = (case m (c # cs) of Some x \<Rightarrow> Some x | None \<Rightarrow> search m cs)"

text \<open>
  The tail \<open>([`"]?)(\w+)\1\<close> shared by the three table patterns; the result is group 2.
  With an opening quote the longest run of word characters must be followed by the same
  quote (a shorter run is followed by a word character, and the empty group 1 would
  leave \<open>\w+\<close> at the quote); without one the longest run is taken.
\<close>

definition quoted_name :: "string \<Rightarrow> string option" where
  "quoted_name s =
     (case s of
        [] \<Rightarrow> None
      | c # cs \<Rightarrow>
          if c = CHR 0x60 \<or> c = CHR 0x22 then
            (let w = takeWhile is_word cs; rest = dropWhile is_word cs
             in if w \<noteq> [] \<and> startsWith rest [c] then Some w else None)
          else
            (let w = takeWhile is_word (c # cs)
             in if w \<noteq> [] then Some w else None))"

text \<open>\<open>/(?:DELETE\s+FROM|UPDATE|INSERT\s+INTO)\s+([`"]?)(\w+)\1/\<close> at one position.\<close>

definition dml_keyword :: "string \<Rightarrow> string option" where
  "dml_keyword s =
     (case match_lit ''DELETE'' s of
        Some r \<Rightarrow> (case skip_ws1 r of Some r2 \<Rightarrow> match_lit ''FROM'' r2 | None \<Rightarrow> None)
      | None \<Rightarrow>
          (case match_lit ''UPDATE'' s of
             Some r \<Rightarrow> Some r
           | None \<Rightarrow>
               (case match_lit ''INSERT'' s of
                  Some r \<Rightarrow> (case skip_ws1 r of Some r2 \<Rightarrow> match_lit ''INTO'' r2 | None \<Rightarrow> None)
                | None \<Rightarrow> None)))"

definition dml_table_at :: "string \<Rightarrow> string option" where
  "dml_table_at s =
     (case dml_keyword s of
        None \<Rightarrow> None
      | Some r \<Rightarrow> (case skip_ws1 r of None \<Rightarrow> None | Some r2 \<Rightarrow> quoted_name r2))"

text \<open>
  An optional group \<open>(?:K\s+)?\<close> followed by the name: the group is tried first, and
  when the name does not follow it the match is retried with the group empty.
\<close>

definition optional_then_name :: "(string \<Rightarrow> string option) \<Rightarrow> string \<Rightarrow> string option" where
  "optional_then_name grp s =
     (case grp s of
        Some r \<Rightarrow> (case quoted_name r of Some t \<Rightarrow> Some t | None \<Rightarrow> quoted_name s)
      | None \<Rightarrow> quoted_name s)"

definition if_exists :: "string \<Rightarrow> string option" where
  "if_exists s =
     (case match_lit ''IF'' s of
        None \<Rightarrow> None
      | Some r \<Rightarrow>
          (case skip_ws1 r of
             None \<Rightarrow> None
           | Some r2 \<Rightarrow>
               (case match_lit ''EXISTS'' r2 of None \<Rightarrow> None | Some r3 \<Rightarrow> skip_ws1 r3)))"

text \<open>\<open>/DROP\s+TABLE\s+(?:IF\s+EXISTS\s+)?([`"]?)(\w+)\1/\<close> at one position.\<close>

definition drop_table_at :: "string \<Rightarrow> string option" where
  "drop_table_at s =
     (case match_lit ''DROP'' s of
        None \<Rightarrow> None
      | Some r \<Rightarrow>
          (case skip_ws1 r of
             None \<Rightarrow> None
           | Some r2 \<Rightarrow>
               (case match_lit ''TABLE'' r2 of
                  None \<Rightarrow> None
                | Some r3 \<Rightarrow>
                    (case skip_ws1 r3 of
                       None \<Rightarrow> None
                     | Some r4 \<Rightarrow> optional_then_name if_exists r4))))"

definition table_kw :: "string \<Rightarrow> string option" where
  "table_kw s = (case match_lit ''TABLE'' s of None \<Rightarrow> None | Some r \<Rightarrow> skip_ws1 r)"

text \<open>\<open>/TRUNCATE\s+(?:TABLE\s+)?([`"]?)(\w+)\1/\<close> at one position.\<close>

definition truncate_at :: "string \<Rightarrow> string option" where
  "truncate_at s =
     (case match_lit ''TRUNCATE'' s of
        None \<Rightarrow> None
      | Some r \<Rightarrow>
          (case skip_ws1 r of
             None \<Rightarrow> None
           | Some r2 \<Rightarrow> optional_then_name table_kw r2))"

definition extractTableFromQuery :: "string \<Rightarrow> string option" where
  "extractTableFromQuery query =
     (let normalizedQuery = toUpperCase (trim query)
      in case search dml_table_at normalizedQuery of
           Some t \<Rightarrow> Some (toLowerCase t)
         | None \<Rightarrow>
             (case search drop_table_at normalizedQuery of
                Some t \<Rightarrow> Some (toLowerCase t)
              | None \<Rightarrow>
                  (case search truncate_at normalizedQuery of
                     Some t \<Rightarrow> Some (toLowerCase t)
                   | None \<Rightarrow> None)))"

section \<open>Permission gate and write-path classifier\<close>

record permissions =
  allowInsert :: bool
  allowUpdate :: bool
  allowDelete :: bool

datatype opkind = INSERT | UPDATE | DELETE | CREATE_TABLE | DROP_TABLE | ROLLBACK

text \<open>\<open>checkQueryPermissions\<close> returns \<open>true\<close> or throws; \<open>Inl\<close> is the thrown message.\<close>

definition checkQueryPermissions :: "permissions \<Rightarrow> string \<Rightarrow> string + bool" where
  "checkQueryPermissions perms query =
     (let normalizedQuery = toUpperCase (trim query)
      in if (startsWith normalizedQuery ''DELETE''
             \<or> includes_str normalizedQuery ''DROP TABLE''
             \<or> includes_str normalizedQuery ''DROP DATABASE''
             \<or> includes_str normalizedQuery ''TRUNCATE'')
            \<and> \<not> allowDelete perms
         then Inl ''DELETE operations are not allowed. Set ALLOW_DELETE_OPERATION=true to enable.''
         else if (startsWith normalizedQuery ''UPDATE''
                  \<or> includes_str normalizedQuery ''ALTER TABLE''
                  \<or> includes_str normalizedQuery ''MODIFY COLUMN''
                  \<or> includes_str normalizedQuery ''ADD COLUMN''
                  \<or> includes_str normalizedQuery ''DROP COLUMN'')
                 \<and> \<not> allowUpdate perms
         then Inl ''UPDATE operations are not allowed. Set ALLOW_UPDATE_OPERATION=true to enable.''
         else if (startsWith normalizedQuery ''INSERT''
                  \<or> includes_str normalizedQuery ''CREATE TABLE''
                  \<or> includes_str normalizedQuery ''CREATE DATABASE''
                  \<or> includes_str normalizedQuery ''CREATE INDEX'')
                 \<and> \<not> allowInsert perms
         then Inl ''INSERT operations are not allowed. Set ALLOW_INSERT_OPERATION=true to enable.''
         else Inr True)"

text \<open>
  The kind that \<open>handleQuery\<close> assigns to a statement (its local \<open>operationType\<close>);
  \<open>None\<close> is the JavaScript \<open>null\<close>.
\<close>

definition operationType :: "string \<Rightarrow> opkind option" where
  "operationType query =
     (let normalizedQuery = toUpperCase (trim query)
      in if startsWith normalizedQuery ''DELETE'' \<or> includes_str normalizedQuery ''TRUNCATE''
         then Some DELETE
         else if startsWith normalizedQuery ''UPDATE'' then Some UPDATE
         else if startsWith normalizedQuery ''INSERT'' then Some INSERT
         else if includes_str normalizedQuery ''DROP TABLE'' then Some DROP_TABLE
         else None)"

section \<open>Rows, backup payloads and the version ledger\<close>

text \<open>
  A cell of a result row as the driver returns it. \<open>VDate d\<close> is a \<open>Date\<close> object,
  carried as its ISO-8601 rendering \<open>d\<close>; \<open>JSON.stringify\<close> turns it into the string
  \<open>d\<close>, every other cell is unchanged by the round trip through the ledger's text
  column. A row is an object: its columns in enumeration order.
\<close>

datatype val = VNull | VBool bool | VNum int | VStr string | VDate string

type_synonym row = "(string \<times> val) list"

fun toJSON :: "val \<Rightarrow> val" where
  "toJSON (VDate d) = VStr d"
| "toJSON v = v"

definition toJSON_row :: "row \<Rightarrow> row" where
  "toJSON_row r = map (\<lambda>(k, v). (k, toJSON v)) r"

text \<open>
  What \<open>connection.execute\<close> resolves to (its first component): a row array for a
  statement that returns rows, or the result header with \<open>affectedRows\<close> and
  \<open>insertId\<close> for one that writes.
\<close>

datatype exec_result = Rows "row list" | Header int int

definition toJSON_result :: "exec_result \<Rightarrow> exec_result" where
  "toJSON_result res = (case res of Rows rows \<Rightarrow> Rows (map toJSON_row rows) | Header a i \<Rightarrow> Header a i)"

text \<open>\<open>rows.length\<close>: the number of rows of an array, \<open>undefined\<close> (\<open>None\<close>) on a header.\<close>

definition length_of :: "exec_result \<Rightarrow> int option" where
  "length_of res = (case res of Rows rows \<Rightarrow> Some (int (length rows)) | Header a i \<Rightarrow> None)"

text \<open>The rows of an answer when it is an array, as \<open>Array.isArray\<close> tells.\<close>

definition array_of :: "exec_result \<Rightarrow> row list option" where
  "array_of res = (case res of Rows rows \<Rightarrow> Some rows | Header a i \<Rightarrow> None)"

text \<open>
  The object \<open>backupInfo\<close> of \<open>createBackup\<close>, which is what the ledger holds after
  \<open>JSON.stringify\<close> and what \<open>JSON.parse\<close> gives back to the rollback. A field that was
  never assigned is \<open>None\<close>. \<open>deletedRows\<close> and \<open>originalRows\<close> are read only behind
  \<open>Array.isArray\<close>, so a value that is not an array is \<open>None\<close> there as well; \<open>data\<close> is
  read by its truthiness and its \<open>length\<close>, so it keeps the executor's answer as it is.
\<close>

record backupInfo =
  info_type :: opkind
  info_sql_query :: string
  deletedRows :: "row list option"
  originalRows :: "row list option"
  table_structure :: "row option"
  table_data :: "exec_result option"
  tableName :: "string option"
  createQuery :: "string option"
  info_insertId :: "int option"
  insertedRows :: "int option"
  idRange :: "(int \<times> int) option"

definition new_backupInfo :: "opkind \<Rightarrow> string \<Rightarrow> backupInfo" where
  "new_backupInfo operation query =
     \<lparr> info_type = operation, info_sql_query = query, deletedRows = None,
       originalRows = None, table_structure = None, table_data = None, tableName = None,
       createQuery = None, info_insertId = None, insertedRows = None, idRange = None \<rparr>"

text \<open>One row of \<open>version_history\<close>, without its \<open>id\<close>.\<close>

record versionInfo =
  session_id :: string
  timestamp :: string
  operation_type :: opkind
  target_table :: "string option"
  sql_query :: string
  backup_data :: "backupInfo option"
  affected_rows :: "int option"
  description :: string

text \<open>
  The state the handlers act on. \<open>db\<close> is the MySQL database behind the connection,
  \<open>issued\<close> the statements sent to it so far (text, bound parameters, whether the
  executor accepted it), \<open>versionDB\<close> the ledger table with the ids it assigned
  (\<open>None\<close> when \<open>initVersionControl\<close> failed and left \<open>this.versionDB\<close> null),
  \<open>seq\<close> the last id of the AUTOINCREMENT column, \<open>console\<close> the lines written with
  \<open>console.error\<close>.
\<close>

record 'db world =
  db :: 'db
  issued :: "(string \<times> val list \<times> bool) list"
  versionDB :: "(nat \<times> versionInfo) list option"
  seq :: nat
  console :: "string list"

text \<open>
  What a handler reads from its surroundings: the server's permission flags and session
  id, the SQL executor, whether \<open>createConnection\<close> throws, the two clock readings of
  the call (\<open>new Date().toISOString()\<close> and \<open>process.hrtime.bigint()\<close>), the result of
  \<open>new Date(value).toISOString()\<close> (\<open>None\<close> when it throws a RangeError), the message
  of the TypeError that the driver throws when it is handed a statement that is not a
  string, and the table renderer.
\<close>

record 'db env =
  permissions :: permissions
  sessionId :: string
  execute :: "'db \<Rightarrow> string \<Rightarrow> val list \<Rightarrow> (string + exec_result) \<times> 'db"
  connectError :: "string option"
  now_iso :: string
  hrtime :: nat
  dateToISOString :: "string \<Rightarrow> string option"
  statementTypeError :: string
  formatResultsAsTable :: "row list \<Rightarrow> string"

record response =
  content_text :: string
  isError :: bool

definition is_ok :: "string + 'a \<Rightarrow> bool" where
  "is_ok r = (case r of Inl _ \<Rightarrow> False | Inr _ \<Rightarrow> True)"

text \<open>\<open>connection.execute(sql, params)\<close>: the statement is sent and recorded.\<close>

definition run_sql ::
  "'db env \<Rightarrow> string \<Rightarrow> val list \<Rightarrow> 'db world \<Rightarrow> (string + exec_result) \<times> 'db world" where
  "run_sql e q ps w =
     (case execute e (db w) q ps of
        (r, d') \<Rightarrow> (r, w\<lparr>db := d', issued := issued w @ [(q, ps, is_ok r)]\<rparr>))"

definition log_error :: "string \<Rightarrow> 'db world \<Rightarrow> 'db world" where
  "log_error line w = w\<lparr>console := console w @ [line]\<rparr>"

section \<open>Timestamps\<close>

fun replace_first :: "char \<Rightarrow> char \<Rightarrow> string \<Rightarrow> string" where
  "replace_first a b [] = []"
| "replace_first a b (c # cs) = (if c = a then b # cs else c # replace_first a b cs)"

definition slice_last :: "nat \<Rightarrow> string \<Rightarrow> string" where
  "slice_last n s = drop (length s - n) s"

text \<open>
  \<open>new Date().toISOString().replace('T', ' ').slice(0, -1)
     + String(process.hrtime.bigint()).slice(-6)\<close>
\<close>

definition make_timestamp :: "string \<Rightarrow> nat \<Rightarrow> string" where
  "make_timestamp wall hr =
     butlast (replace_first (CHR ''T'') (CHR '' '') wall) @ slice_last 6 (digits hr)"

text \<open>
  Comparison of two strings as SQLite's \<open>ORDER BY timestamp\<close> and JavaScript's \<open><=\<close>
  make it: by code unit, a proper prefix first.
\<close>

fun str_le :: "string \<Rightarrow> string \<Rightarrow> bool" where
  "str_le [] t = True"
| "str_le (c # cs) [] = False"
| "str_le (c # cs) (d # ds) =
     ((of_char c :: nat) < of_char d \<or> (c = d \<and> str_le cs ds))"

section \<open>The ledger\<close>

definition null_prepare_msg :: string where
  "null_prepare_msg = ''Cannot read properties of null (reading 'prepare')''"

definition saveVersion :: "versionInfo \<Rightarrow> 'db world \<Rightarrow> (string + nat) \<times> 'db world" where
  "saveVersion vi w =
     (case versionDB w of
        None \<Rightarrow> (Inl null_prepare_msg, log_error (''Failed to save version: '' @ null_prepare_msg) w)
      | Some vs \<Rightarrow>
          (Inr (Suc (seq w)), w\<lparr>versionDB := Some (vs @ [(Suc (seq w), vi)]), seq := Suc (seq w)\<rparr>))"

definition table_str :: "string option \<Rightarrow> string" where
  "table_str t = (case t of None \<Rightarrow> ''null'' | Some n \<Rightarrow> n)"

fun op_str :: "opkind \<Rightarrow> string" where
  "op_str INSERT = ''INSERT''"
| "op_str UPDATE = ''UPDATE''"
| "op_str DELETE = ''DELETE''"
| "op_str CREATE_TABLE = ''CREATE_TABLE''"
| "op_str DROP_TABLE = ''DROP_TABLE''"
| "op_str ROLLBACK = ''ROLLBACK''"

text \<open>\<open>${affectedRows}\<close>, which is \<open>undefined\<close> when no count was read.\<close>

definition show_count :: "int option \<Rightarrow> string" where
  "show_count n = (case n of None \<Rightarrow> ''undefined'' | Some k \<Rightarrow> show_int k)"

fun getOperationDescription :: "opkind \<Rightarrow> string option \<Rightarrow> int option \<Rightarrow> string" where
  "getOperationDescription INSERT tbl n =
     ''INSERT operation: '' @ show_count n @ '' row(s) inserted into '' @ table_str tbl"
| "getOperationDescription UPDATE tbl n =
     ''UPDATE operation: '' @ show_count n @ '' row(s) updated in '' @ table_str tbl"
| "getOperationDescription DELETE tbl n =
     ''DELETE operation: '' @ show_count n @ '' row(s) deleted from '' @ table_str tbl"
| "getOperationDescription CREATE_TABLE tbl n =
     ''CREATE TABLE operation: table '' @ table_str tbl @ '' created''"
| "getOperationDescription DROP_TABLE tbl n =
     ''DROP TABLE operation: table '' @ table_str tbl @ '' dropped with ''
       @ show_count n @ '' rows''"
| "getOperationDescription operation tbl n =
     op_str operation @ '' operation on '' @ table_str tbl"

section \<open>Snapshot capture\<close>

text \<open>
  \<open>/WHERE\s+(.+?)(?:\s+ORDER\s+BY|\s+LIMIT|\s*$)/i\<close>, applied to the statement as
  written. \<open>where_tail\<close> is the closing alternative, \<open>lazy_group\<close> the shortest
  non-empty run of characters other than line terminators that the alternative follows,
  and \<open>ws_then_group\<close> lets \<open>\s+\<close> give characters back, longest run first, since the
  group may itself start with a space.
\<close>

definition match_lit_ci :: "string \<Rightarrow> string \<Rightarrow> string option" where
  "match_lit_ci lit s =
     (if startsWith (toUpperCase (take (length lit) s)) lit then Some (drop (length lit) s)
      else None)"

definition where_tail :: "string \<Rightarrow> bool" where
  "where_tail s =
     ((case skip_ws1 s of
         None \<Rightarrow> False
       | Some r \<Rightarrow>
           (case match_lit_ci ''ORDER'' r of
              None \<Rightarrow> False
            | Some r2 \<Rightarrow>
                (case skip_ws1 r2 of
                   None \<Rightarrow> False
                 | Some r3 \<Rightarrow> match_lit_ci ''BY'' r3 \<noteq> None)))
      \<or> (case skip_ws1 s of None \<Rightarrow> False | Some r \<Rightarrow> match_lit_ci ''LIMIT'' r \<noteq> None)
      \<or> dropWhile is_space s = [])"

fun lazy_group :: "string \<Rightarrow> string option" where
  "lazy_group [] = None"
| "lazy_group (c # cs) =
     (if is_line_terminator c then None
      else if where_tail cs then Some [c]
      else map_option ((#) c) (lazy_group cs))"

fun ws_then_group :: "nat \<Rightarrow> string \<Rightarrow> string option" where
  "ws_then_group 0 s = None"
| "ws_then_group (Suc n) s =
     (case lazy_group (drop (Suc n) s) of
        Some g \<Rightarrow> Some g
      | None \<Rightarrow> ws_then_group n s)"

definition where_at :: "string \<Rightarrow> string option" where
  "where_at s =
     (case match_lit_ci ''WHERE'' s of
        None \<Rightarrow> None
      | Some r \<Rightarrow> ws_then_group (length (takeWhile is_space r)) r)"

definition whereMatch :: "string \<Rightarrow> string option" where
  "whereMatch query = search where_at query"

definition backupQuery :: "string \<Rightarrow> string option \<Rightarrow> string" where
  "backupQuery query targetTable =
     (if includes_str (toLowerCase query) ''where'' then
        (case whereMatch query of
           Some cond \<Rightarrow> ''SELECT * FROM '' @ table_str targetTable @ '' WHERE '' @ cond
         | None \<Rightarrow> [])
      else ''SELECT * FROM '' @ table_str targetTable)"

text \<open>
  The body of the \<open>try\<close> block of \<open>createBackup\<close> up to the ledger write: the new
  \<open>backupData\<close> (\<open>None\<close> is \<open>null\<close>) and \<open>affectedRows\<close> (\<open>None\<close> is \<open>undefined\<close>, which
  the ledger stores as NULL), or the error thrown. The last argument but one says whether
  a connection was passed.
\<close>

definition capture ::
  "'db env \<Rightarrow> opkind \<Rightarrow> string \<Rightarrow> string option \<Rightarrow> exec_result option \<Rightarrow> bool \<Rightarrow> 'db world
     \<Rightarrow> (string + backupInfo option \<times> int option) \<times> 'db world" where
  "capture e operation query targetTable insertResult connection w =
     (let backupInfo = new_backupInfo operation query
      in if connection \<and> (operation = DELETE \<or> operation = UPDATE) then
           (let q = backupQuery query targetTable
            in if q \<noteq> [] then
                 (case run_sql e q [] w of
                    (Inl m, w') \<Rightarrow> (Inl m, w')
                  | (Inr rows, w') \<Rightarrow>
                      (Inr (Some (if operation = DELETE
                                  then backupInfo\<lparr>deletedRows := array_of (toJSON_result rows)\<rparr>
                                  else backupInfo\<lparr>originalRows := array_of (toJSON_result rows)\<rparr>),
                            length_of rows), w'))
               else (Inr (None, Some 0), w))
         else if connection \<and> operation = DROP_TABLE then
           (case run_sql e (''SELECT * FROM '' @ table_str targetTable) [] w of
              (Inl m, w') \<Rightarrow> (Inl m, w')
            | (Inr tableData, w') \<Rightarrow>
                (case run_sql e (''SHOW CREATE TABLE '' @ table_str targetTable) [] w' of
                   (Inl m, w'') \<Rightarrow> (Inl m, w'')
                 | (Inr tableStructure, w'') \<Rightarrow>
                     (Inr (Some (backupInfo
                             \<lparr>table_structure :=
                                (case tableStructure of
                                   Rows (r # rs) \<Rightarrow> Some (toJSON_row r)
                                 | _ \<Rightarrow> None),
                              table_data := Some (toJSON_result tableData)\<rparr>),
                           length_of tableData), w'')))
         else if operation = CREATE_TABLE then
           (Inr (Some (backupInfo\<lparr>tableName := targetTable, createQuery := Some query\<rparr>),
                 Some 0), w)
         else if operation = INSERT then
           (case insertResult of
              Some (Header n i) \<Rightarrow>
                (Inr (Some (backupInfo
                        \<lparr>info_insertId := Some i, insertedRows := Some n,
                         tableName := targetTable,
                         idRange := (if i \<noteq> 0 then Some (i, js_sub (js_add i n) 1) else None)\<rparr>),
                      Some n), w)
            | Some (Rows rows) \<Rightarrow> (Inr (Some (backupInfo\<lparr>tableName := targetTable\<rparr>), None), w)
            | None \<Rightarrow> (Inr (Some backupInfo, Some 0), w))
         else (Inr (None, Some 0), w))"

text \<open>
  \<open>createBackup\<close>: \<open>Inr None\<close> is the early \<open>return null\<close>, \<open>Inr (Some _)\<close> the returned
  \<open>{timestamp, backupData, affectedRows}\<close>, \<open>Inl m\<close> the error rethrown by the \<open>catch\<close>
  after it has logged it.
\<close>

definition createBackup ::
  "'db env \<Rightarrow> opkind \<Rightarrow> string \<Rightarrow> string option \<Rightarrow> exec_result option \<Rightarrow> bool \<Rightarrow> 'db world
     \<Rightarrow> (string + (string \<times> backupInfo option \<times> int option) option) \<times> 'db world" where
  "createBackup e operation query targetTable insertResult connection w =
     (if \<not> allowInsert (permissions e) \<and> \<not> allowUpdate (permissions e)
          \<and> \<not> allowDelete (permissions e)
      then (Inr None, w)
      else
        (case capture e operation query targetTable insertResult connection w of
           (Inl m, w') \<Rightarrow> (Inl m, log_error (''Backup creation failed: '' @ m) w')
         | (Inr (backupData, affectedRows), w') \<Rightarrow>
             (let ts = make_timestamp (now_iso e) (hrtime e)
              in case saveVersion
                        \<lparr> session_id = sessionId e, timestamp = ts,
                          operation_type = operation, target_table = targetTable,
                          sql_query = query, backup_data = backupData,
                          affected_rows = affectedRows,
                          description =
                            getOperationDescription operation targetTable affectedRows \<rparr> w' of
                   (Inl m, w'') \<Rightarrow> (Inl m, log_error (''Backup creation failed: '' @ m) w'')
                 | (Inr new_id, w'') \<Rightarrow> (Inr (Some (ts, backupData, affectedRows)), w''))))"

section \<open>The write path\<close>

text \<open>The backup taken before the statement runs; a failure is logged and dropped.\<close>

definition backup_before ::
  "'db env \<Rightarrow> opkind option \<Rightarrow> string \<Rightarrow> string option \<Rightarrow> 'db world \<Rightarrow> 'db world" where
  "backup_before e opType query targetTable w =
     (case opType of
        None \<Rightarrow> w
      | Some operation \<Rightarrow>
          if (operation = DELETE \<or> operation = UPDATE \<or> operation = DROP_TABLE)
             \<and> targetTable \<noteq> None
          then (case createBackup e operation query targetTable None True w of
                  (Inl m, w') \<Rightarrow> log_error (''Backup failed: '' @ m) w'
                | (Inr r, w') \<Rightarrow> w')
          else w)"

text \<open>
  The record made after an INSERT has run; \<open>rows.insertId !== undefined\<close> holds for a
  result header and for nothing else.
\<close>

definition backup_after ::
  "'db env \<Rightarrow> opkind option \<Rightarrow> string \<Rightarrow> string option \<Rightarrow> exec_result \<Rightarrow> 'db world \<Rightarrow> 'db world" where
  "backup_after e opType query targetTable rows w =
     (if opType = Some INSERT \<and> targetTable \<noteq> None
         \<and> (case rows of Header a i \<Rightarrow> True | Rows rs \<Rightarrow> False)
      then (case createBackup e INSERT query targetTable (Some rows) True w of
              (Inl m, w') \<Rightarrow> log_error (''Backup failed: '' @ m) w'
            | (Inr r, w') \<Rightarrow> w')
      else w)"

definition result_text :: "'db env \<Rightarrow> exec_result \<Rightarrow> string" where
  "result_text e rows =
     (case rows of
        Rows rs \<Rightarrow>
          if rs \<noteq> [] then formatResultsAsTable e rs
          else ''Query executed successfully. No rows returned.''
      | Header a i \<Rightarrow> ''Query executed successfully. Affected rows: '' @ show_int a)"

text \<open>
  \<open>handleQuery\<close>: \<open>Inl m\<close> is an error thrown to the dispatcher (a refused permission, a
  failed connection, a failed statement), \<open>Inr\<close> the response returned.
\<close>

definition handleQuery ::
  "'db env \<Rightarrow> string \<Rightarrow> 'db world \<Rightarrow> (string + response) \<times> 'db world" where
  "handleQuery e query w =
     (case checkQueryPermissions (permissions e) query of
        Inl m \<Rightarrow> (Inl m, w)
      | Inr ok \<Rightarrow>
          (let targetTable = extractTableFromQuery query;
               opType = operationType query
           in case connectError e of
                Some m \<Rightarrow> (Inl m, w)
              | None \<Rightarrow>
                  (case run_sql e query [] (backup_before e opType query targetTable w) of
                     (Inl m, w2) \<Rightarrow> (Inl m, w2)
                   | (Inr rows, w2) \<Rightarrow>
                       (Inr \<lparr> content_text = result_text e rows, isError = False \<rparr>,
                        backup_after e opType query targetTable rows w2))))"

section \<open>The restore path\<close>

text \<open>\<open>/^\d{4}-\d{2}-\d{2}T\d{2}:\d{2}:\d{2}/\<close>: in the pattern, \<open>d\<close> stands for a digit.\<close>

fun match_pattern :: "string \<Rightarrow> string \<Rightarrow> bool" where
  "match_pattern [] s = True"
| "match_pattern (p # ps) [] = False"
| "match_pattern (p # ps) (c # cs) =
     ((if p = CHR ''d'' then is_digit c else c = p) \<and> match_pattern ps cs)"

definition iso_like :: "string \<Rightarrow> bool" where
  "iso_like s = match_pattern ''dddd-dd-ddTdd:dd:dd'' s"

text \<open>
  The callback of \<open>Object.values(row).map\<close>: a string that looks like an ISO timestamp
  becomes \<open>new Date(value).toISOString().slice(0, 19).replace('T', ' ')\<close>, which throws
  when the date is invalid.
\<close>

definition convert_value :: "'db env \<Rightarrow> val \<Rightarrow> string + val" where
  "convert_value e v =
     (case v of
        VStr s \<Rightarrow>
          if iso_like s then
            (case dateToISOString e s of
               None \<Rightarrow> Inl ''Invalid time value''
             | Some t \<Rightarrow> Inr (VStr (replace_first (CHR ''T'') (CHR '' '') (take 19 t))))
          else Inr v
      | _ \<Rightarrow> Inr v)"

fun convert_values :: "'db env \<Rightarrow> val list \<Rightarrow> string + val list" where
  "convert_values e [] = Inr []"
| "convert_values e (v # vs) =
     (case convert_value e v of
        Inl m \<Rightarrow> Inl m
      | Inr v' \<Rightarrow> (case convert_values e vs of Inl m \<Rightarrow> Inl m | Inr vs' \<Rightarrow> Inr (v' # vs')))"

definition quote :: "string \<Rightarrow> string" where
  "quote s = CHR 0x27 # s @ [CHR 0x27]"

definition insertSQL :: "string \<Rightarrow> string list \<Rightarrow> string" where
  "insertSQL tbl columns =
     ''INSERT INTO '' @ tbl @ '' ('' @ join '', '' columns @ '') VALUES (''
       @ join '', '' (map (\<lambda>c. ''?'') columns) @ '')''"

text \<open>The loop that re-inserts row images (for a DELETE record and for a dropped table).\<close>

fun insert_rows ::
  "'db env \<Rightarrow> string \<Rightarrow> row list \<Rightarrow> 'db world \<Rightarrow> (string + unit) \<times> 'db world" where
  "insert_rows e tbl [] w = (Inr (), w)"
| "insert_rows e tbl (r # rs) w =
     (case convert_values e (map snd r) of
        Inl m \<Rightarrow> (Inl m, w)
      | Inr vals \<Rightarrow>
          (case run_sql e (insertSQL tbl (map fst r)) vals w of
             (Inl m, w') \<Rightarrow> (Inl m, w')
           | (Inr res, w') \<Rightarrow> insert_rows e tbl rs w'))"

text \<open>JavaScript truthiness of a cell, as \<open>if (row.id)\<close> tests it.\<close>

fun truthy :: "val \<Rightarrow> bool" where
  "truthy VNull = False"
| "truthy (VBool b) = b"
| "truthy (VNum n) = (n \<noteq> 0)"
| "truthy (VStr s) = (s \<noteq> [])"
| "truthy (VDate d) = True"

definition updateSQL :: "string \<Rightarrow> string list \<Rightarrow> string" where
  "updateSQL tbl columns =
     ''UPDATE '' @ tbl @ '' SET ''
       @ join '', '' (map (\<lambda>c. c @ '' = ?'') (filter (\<lambda>c. c \<noteq> ''id'') columns))
       @ '' WHERE id = ?''"

definition updateValues :: "string list \<Rightarrow> val list \<Rightarrow> val \<Rightarrow> val list" where
  "updateValues columns vals idv =
     map snd (filter (\<lambda>(c, v). c \<noteq> ''id'') (zip columns vals)) @ [idv]"

text \<open>The loop that restores the original rows of an UPDATE record.\<close>

fun update_rows ::
  "'db env \<Rightarrow> string \<Rightarrow> row list \<Rightarrow> 'db world \<Rightarrow> (string + unit) \<times> 'db world" where
  "update_rows e tbl [] w = (Inr (), w)"
| "update_rows e tbl (r # rs) w =
     (case convert_values e (map snd r) of
        Inl m \<Rightarrow> (Inl m, w)
      | Inr vals \<Rightarrow>
          (case map_of r ''id'' of
             None \<Rightarrow> update_rows e tbl rs w
           | Some idv \<Rightarrow>
               if truthy idv then
                 (case run_sql e (updateSQL tbl (map fst r)) (updateValues (map fst r) vals idv) w of
                    (Inl m, w') \<Rightarrow> (Inl m, w')
                  | (Inr res, w') \<Rightarrow> update_rows e tbl rs w')
               else update_rows e tbl rs w))"

definition manual_msg :: string where
  "manual_msg = ''INSERT rollback: Cannot automatically delete inserted data without primary key info. Manual deletion may be required.''"

text \<open>
  The inverse action of one record: the body of the inner \<open>try\<close> of
  \<open>handleRollbackToVersion\<close> up to the ledger write. \<open>Inr result\<close> is the text that the
  branch leaves in \<open>result\<close>, \<open>Inl m\<close> the error thrown. A stored creation statement that
  is missing or not a string makes the driver throw before anything is sent.
\<close>

definition inverse_action ::
  "'db env \<Rightarrow> versionInfo \<Rightarrow> backupInfo \<Rightarrow> 'db world \<Rightarrow> (string + string) \<times> 'db world" where
  "inverse_action e v b w =
     (let tbl = table_str (target_table v)
      in case operation_type v of
           DELETE \<Rightarrow>
             (case deletedRows b of
                None \<Rightarrow> (Inr [], w)
              | Some rows \<Rightarrow>
                  if rows \<noteq> [] then
                    (case insert_rows e tbl rows w of
                       (Inl m, w') \<Rightarrow> (Inl m, w')
                     | (Inr u, w') \<Rightarrow>
                         (Inr (''Restored '' @ show_int (int (length rows))
                                 @ '' deleted rows to table '' @ quote tbl), w'))
                  else (Inr [], w))
         | UPDATE \<Rightarrow>
             (case originalRows b of
                None \<Rightarrow> (Inr [], w)
              | Some rows \<Rightarrow>
                  if rows \<noteq> [] then
                    (case update_rows e tbl rows w of
                       (Inl m, w') \<Rightarrow> (Inl m, w')
                     | (Inr u, w') \<Rightarrow>
                         (Inr (''Restored '' @ show_int (int (length rows))
                                 @ '' rows to original state in table '' @ quote tbl), w'))
                  else (Inr [], w))
         | INSERT \<Rightarrow>
             (case idRange b of
                None \<Rightarrow> (Inr manual_msg, w)
              | Some (start, end) \<Rightarrow>
                  if start = end then
                    (case run_sql e (''DELETE FROM '' @ tbl @ '' WHERE id = ?'') [VNum start] w of
                       (Inl m, w') \<Rightarrow> (Inl m, w')
                     | (Inr res, w') \<Rightarrow>
                         (Inr (''Deleted inserted row with id '' @ show_int start
                                 @ '' from table '' @ quote tbl), w'))
                  else
                    (case run_sql e (''DELETE FROM '' @ tbl @ '' WHERE id BETWEEN ? AND ?'')
                            [VNum start, VNum end] w of
                       (Inl m, w') \<Rightarrow> (Inl m, w')
                     | (Inr res, w') \<Rightarrow>
                         (Inr (''Deleted inserted rows with ids '' @ show_int start @ ''-''
                                 @ show_int end @ '' from table '' @ quote tbl), w')))
         | DROP_TABLE \<Rightarrow>
             (case (table_structure b, table_data b) of
                (Some st, Some tableData) \<Rightarrow>
                  (case map_of st ''Create Table'' of
                     Some (VStr createTableSQL) \<Rightarrow>
                       (case run_sql e createTableSQL [] w of
                          (Inl m, w') \<Rightarrow> (Inl m, w')
                        | (Inr res, w') \<Rightarrow>
                            (case insert_rows e tbl
                                    (case tableData of Rows rs \<Rightarrow> rs | Header a i \<Rightarrow> []) w' of
                               (Inl m, w'') \<Rightarrow> (Inl m, w'')
                             | (Inr u, w'') \<Rightarrow>
                                 (Inr (''Restored table '' @ quote tbl @ '' with ''
                                         @ show_count (length_of tableData) @ '' rows''), w'')))
                   | _ \<Rightarrow> (Inl (statementTypeError e), w))
              | _ \<Rightarrow> (Inr [], w))
         | CREATE_TABLE \<Rightarrow>
             (case run_sql e (''DROP TABLE IF EXISTS '' @ tbl) [] w of
                (Inl m, w') \<Rightarrow> (Inl m, w')
              | (Inr res, w') \<Rightarrow>
                  (Inr (''Dropped table '' @ quote tbl @ '' (rollback CREATE TABLE)''), w'))
         | ROLLBACK \<Rightarrow> (Inr [], w))"

definition error_response :: "string \<Rightarrow> response" where
  "error_response t = \<lparr> content_text = t, isError = True \<rparr>"

text \<open>The ROLLBACK marker written after the inverse action.\<close>

definition rollback_marker :: "'db env \<Rightarrow> versionInfo \<Rightarrow> int \<Rightarrow> versionInfo" where
  "rollback_marker e v version_id =
     \<lparr> session_id = sessionId e,
       timestamp = make_timestamp (now_iso e) (hrtime e),
       operation_type = ROLLBACK,
       target_table = target_table v,
       sql_query = ''ROLLBACK TO VERSION '' @ show_int version_id,
       backup_data = None,
       affected_rows = Some 0,
       description = ''Rollback to version '' @ show_int version_id \<rparr>"

text \<open>\<open>stmt.get(args.version_id)\<close> on \<open>SELECT * FROM version_history WHERE id = ?\<close>.\<close>

definition get_version :: "(nat \<times> versionInfo) list \<Rightarrow> int \<Rightarrow> (nat \<times> versionInfo) option" where
  "get_version vs version_id = find (\<lambda>(i, v). int i = version_id) vs"

definition handleRollbackToVersion ::
  "'db env \<Rightarrow> int \<Rightarrow> 'db world \<Rightarrow> response \<times> 'db world" where
  "handleRollbackToVersion e version_id w =
     (case versionDB w of
        None \<Rightarrow> (error_response (''Error accessing version data: '' @ null_prepare_msg), w)
      | Some vs \<Rightarrow>
          (case get_version vs version_id of
             None \<Rightarrow>
               (error_response (''Version '' @ show_int version_id @ '' not found.''), w)
           | Some (i, v) \<Rightarrow>
               (case backup_data v of
                  None \<Rightarrow>
                    (error_response
                       (''Version '' @ show_int version_id @ '' has no backup data to restore.''), w)
                | Some b \<Rightarrow>
                    (case connectError e of
                       Some m \<Rightarrow> (error_response (''Error accessing version data: '' @ m), w)
                     | None \<Rightarrow>
                         (case inverse_action e v b w of
                            (Inl m, w') \<Rightarrow> (error_response (''Rollback failed: '' @ m), w')
                          | (Inr result, w') \<Rightarrow>
                              (case saveVersion (rollback_marker e v version_id) w' of
                                 (Inl m, w'') \<Rightarrow>
                                   (error_response (''Rollback failed: '' @ m), w'')
                               | (Inr new_id, w'') \<Rightarrow>
                                   (\<lparr> content_text =
                                        ''Rollback successful!'' @ [CHR 0x0A] @ result,
                                      isError = False \<rparr>, w'')))))))"

section \<open>Observations\<close>

text \<open>What a frame lemma speaks about: everything of the state but the database and its trace.\<close>

definition ledger_part :: "'db world \<Rightarrow> (nat \<times> versionInfo) list option \<times> nat \<times> string list" where
  "ledger_part w = (versionDB w, seq w, console w)"

text \<open>The number of statements the executor has accepted.\<close>

definition succeeded :: "'db world \<Rightarrow> nat" where
  "succeeded w = length (filter (\<lambda>(q, ps, ok). ok) (issued w))"

text \<open>The payloads and the timestamps of the ledger rows, oldest first.\<close>

definition payloads :: "'db world \<Rightarrow> backupInfo option list" where
  "payloads w = (case versionDB w of None \<Rightarrow> [] | Some vs \<Rightarrow> map (\<lambda>(i, v). backup_data v) vs)"

definition timestamps :: "'db world \<Rightarrow> string list" where
  "timestamps w = (case versionDB w of None \<Rightarrow> [] | Some vs \<Rightarrow> map (\<lambda>(i, v). timestamp v) vs)"

text \<open>The id ranges of the payloads of the ledger rows, oldest first.\<close>

definition id_ranges :: "'db world \<Rightarrow> (int \<times> int) option list" where
  "id_ranges w = map (\<lambda>p. case p of None \<Rightarrow> None | Some b \<Rightarrow> idRange b) (payloads w)"

text \<open>
  The inverse action as the specification words it: the statements a rollback sends for
  one record, in order, each with the values bound to it. A deleted or dropped row is
  re-inserted with its columns in the row's order; an updated row that carries a truthy
  \<open>id\<close> gets every other column set back and is addressed by its \<open>id\<close>; a dropped table
  is created first; a string that looks like an ISO timestamp is bound in the form the
  code converts it to.
\<close>

definition bound_value :: "'db env \<Rightarrow> val \<Rightarrow> val" where
  "bound_value e v = (case convert_value e v of Inl m \<Rightarrow> v | Inr v' \<Rightarrow> v')"

definition restorable :: "row \<Rightarrow> bool" where
  "restorable r = (case map_of r ''id'' of None \<Rightarrow> False | Some idv \<Rightarrow> truthy idv)"

definition insert_statement :: "'db env \<Rightarrow> string \<Rightarrow> row \<Rightarrow> string \<times> val list" where
  "insert_statement e tbl r =
     (''INSERT INTO '' @ tbl @ '' ('' @ join '', '' (map (\<lambda>(c, v). c) r) @ '') VALUES (''
        @ join '', '' (map (\<lambda>(c, v). ''?'') r) @ '')'',
      map (\<lambda>(c, v). bound_value e v) r)"

definition update_statement :: "'db env \<Rightarrow> string \<Rightarrow> row \<Rightarrow> string \<times> val list" where
  "update_statement e tbl r =
     (''UPDATE '' @ tbl @ '' SET ''
        @ join '', '' (map (\<lambda>(c, v). c @ '' = ?'') (filter (\<lambda>(c, v). c \<noteq> ''id'') r))
        @ '' WHERE id = ?'',
      map (\<lambda>(c, v). bound_value e v) (filter (\<lambda>(c, v). c \<noteq> ''id'') r)
        @ (case map_of r ''id'' of None \<Rightarrow> [] | Some idv \<Rightarrow> [idv]))"

definition planned_statements ::
  "'db env \<Rightarrow> versionInfo \<Rightarrow> backupInfo \<Rightarrow> (string \<times> val list) list" where
  "planned_statements e v b =
     (let tbl = table_str (target_table v)
      in case operation_type v of
           DELETE \<Rightarrow>
             (case deletedRows b of
                None \<Rightarrow> []
              | Some rows \<Rightarrow> map (insert_statement e tbl) rows)
         | UPDATE \<Rightarrow>
             (case originalRows b of
                None \<Rightarrow> []
              | Some rows \<Rightarrow> map (update_statement e tbl) (filter restorable rows))
         | INSERT \<Rightarrow>
             (case idRange b of
                None \<Rightarrow> []
              | Some (first_id, last_id) \<Rightarrow>
                  if first_id = last_id
                  then [(''DELETE FROM '' @ tbl @ '' WHERE id = ?'', [VNum first_id])]
                  else [(''DELETE FROM '' @ tbl @ '' WHERE id BETWEEN ? AND ?'',
                         [VNum first_id, VNum last_id])])
         | DROP_TABLE \<Rightarrow>
             (case (table_structure b, table_data b) of
                (Some st, Some d) \<Rightarrow>
                  (case map_of st ''Create Table'' of
                     Some (VStr createTableSQL) \<Rightarrow>
                       (createTableSQL, [])
                         # map (insert_statement e tbl)
                             (case d of Rows rows \<Rightarrow> rows | Header a i \<Rightarrow> [])
                   | _ \<Rightarrow> [])
              | _ \<Rightarrow> [])
         | CREATE_TABLE \<Rightarrow> [(''DROP TABLE IF EXISTS '' @ tbl, [])]
         | ROLLBACK \<Rightarrow> [])"

text \<open>
  A statement in the trace, accepted or refused, and the state after a list of statements
  has been sent one after the other, whatever the executor answered.
\<close>

definition accepted :: "string \<times> val list \<Rightarrow> string \<times> val list \<times> bool" where
  "accepted s = (fst s, snd s, True)"


fun run_plan :: "'db env \<Rightarrow> (string \<times> val list) list \<Rightarrow> 'db world \<Rightarrow> 'db world" where
  "run_plan e [] w = w"
| "run_plan e (s # rest) w = run_plan e rest (snd (run_sql e (fst s) (snd s) w))"


section \<open>Example environments\<close>

definition all_perms :: permissions where
  "all_perms = \<lparr> allowInsert = True, allowUpdate = True, allowDelete = True \<rparr>"

text \<open>
  An executor for the examples. Its database is the number of statements received so
  far; the statement that arrives when \<open>fail_at\<close> have been received is refused, a
  SELECT or SHOW is answered with the rows \<open>answer\<close>, any other statement with a header
  for \<open>1\<close> affected row and no generated identity.
\<close>

definition example_execute ::
  "nat option \<Rightarrow> row list \<Rightarrow> nat \<Rightarrow> string \<Rightarrow> val list \<Rightarrow> (string + exec_result) \<times> nat" where
  "example_execute fail_at answer d q ps =
     (if fail_at = Some d then (Inl ''statement refused'', Suc d)
      else if startsWith q ''SELECT'' \<or> startsWith q ''SHOW'' then (Inr (Rows answer), Suc d)
      else (Inr (Header 1 0), Suc d))"

definition example_env :: "nat option \<Rightarrow> row list \<Rightarrow> nat env" where
  "example_env fail_at answer =
     \<lparr> permissions = all_perms, sessionId = ''session-1'',
       execute = example_execute fail_at answer, connectError = None,
       now_iso = ''2024-01-02T03:04:05.123Z'', hrtime = 73001980000,
       dateToISOString = (\<lambda>s. Some s), statementTypeError = ''not a statement'',
       formatResultsAsTable = (\<lambda>rs. ''(table)'') \<rparr>"

definition example_world :: "(nat \<times> versionInfo) list \<Rightarrow> nat world" where
  "example_world vs =
     \<lparr> db = 0, issued = [], versionDB = Some vs, seq = length vs, console = [] \<rparr>"

text \<open>A ledger row of the given kind for table \<open>t\<close>, with the given payload.\<close>

definition example_version :: "opkind \<Rightarrow> string \<Rightarrow> backupInfo option \<Rightarrow> versionInfo" where
  "example_version operation query payload =
     \<lparr> session_id = ''session-1'', timestamp = ''2024-01-02 03:04:05.000000000'',
       operation_type = operation, target_table = Some ''t'', sql_query = query,
       backup_data = payload, affected_rows = Some 1,
       description = getOperationDescription operation (Some ''t'') (Some 1) \<rparr>"

definition three_rows :: "row list" where
  "three_rows = [[(''id'', VNum 1), (''name'', VStr ''a'')],
                 [(''id'', VNum 2), (''name'', VStr ''b'')],
                 [(''id'', VNum 3), (''name'', VStr ''c'')]]"

definition deleted_payload :: backupInfo where
  "deleted_payload = (new_backupInfo DELETE ''DELETE FROM t'')\<lparr>deletedRows := Some three_rows\<rparr>"

definition deleted_three :: "nat world" where
  "deleted_three =
     example_world [(1, example_version DELETE ''DELETE FROM t'' (Some deleted_payload))]"

definition deleted_world :: "row list \<Rightarrow> nat world" where
  "deleted_world rows =
     example_world
       [(1, example_version DELETE ''DELETE FROM t''
              (Some ((new_backupInfo DELETE ''DELETE FROM t'')\<lparr>deletedRows := Some rows\<rparr>)))]"

definition inserted_payload :: "int option \<Rightarrow> backupInfo" where
  "inserted_payload first_id =
     (new_backupInfo INSERT ''INSERT INTO t (name) VALUES (1)'')
       \<lparr>info_insertId := Some (case first_id of None \<Rightarrow> 0 | Some i \<Rightarrow> i),
        insertedRows := Some 1, tableName := Some ''t'',
        idRange := (case first_id of None \<Rightarrow> None | Some i \<Rightarrow> Some (i, i))\<rparr>"

definition inserted_one :: "int option \<Rightarrow> nat world" where
  "inserted_one first_id =
     example_world [(1, example_version INSERT ''INSERT INTO t (name) VALUES (1)''
                          (Some (inserted_payload first_id)))]"

definition updated_payload :: "row list \<Rightarrow> backupInfo" where
  "updated_payload rows =
     (new_backupInfo UPDATE ''UPDATE t SET name = 1'')\<lparr>originalRows := Some rows\<rparr>"

definition updated_world :: "row list \<Rightarrow> nat world" where
  "updated_world rows =
     example_world [(1, example_version UPDATE ''UPDATE t SET name = 1''
                          (Some (updated_payload rows)))]"

text \<open>
  A DELETE recorded by the write path and then rolled back, the second call reading the
  same wall-clock millisecond and a monotonic clock that is 50 microseconds further.
\<close>

definition two_clock_run :: "nat world" where
  "two_clock_run =
     snd (handleRollbackToVersion ((example_env None three_rows)\<lparr>hrtime := 73002030000\<rparr>) 1
            (snd (handleQuery (example_env None three_rows) ''DELETE FROM t'' (example_world []))))"

section \<open>Unfolding the model on concrete inputs\<close>

lemmas example_defs =
  example_env_def example_world_def example_execute_def example_version_def all_perms_def
  three_rows_def deleted_payload_def deleted_three_def new_backupInfo_def
  deleted_world_def inserted_payload_def inserted_one_def updated_payload_def updated_world_def
  two_clock_run_def

lemmas restore_defs =
  handleRollbackToVersion_def get_version_def inverse_action_def error_response_def
  run_sql_def is_ok_def insertSQL_def updateSQL_def updateValues_def convert_value_def
  iso_like_def is_digit_def table_str_def quote_def saveVersion_def rollback_marker_def
  show_int_def show_count_def length_of_def digits.simps succeeded_def Let_def

lemmas write_defs =
  handleQuery_def checkQueryPermissions_def extractTableFromQuery_def operationType_def
  trim_def toUpperCase_def toUpperCase_char_def toLowerCase_def toLowerCase_char_def
  is_space_def is_word_def is_line_terminator_def dml_table_at_def dml_keyword_def
  drop_table_at_def truncate_at_def optional_then_name_def if_exists_def table_kw_def
  match_lit_def match_lit_ci_def skip_ws1_def quoted_name_def backup_before_def
  backup_after_def result_text_def createBackup_def capture_def backupQuery_def
  whereMatch_def where_at_def where_tail_def log_error_def make_timestamp_def
  slice_last_def array_of_def toJSON_result_def toJSON_row_def payloads_def timestamps_def

section \<open>Properties of the classifier\<close>

lemma startsWith_includes_str: "startsWith s p \<Longrightarrow> includes_str s p"
  by (cases s; cases p) auto

lemma startsWith_first_char:
  "startsWith s (a # p) \<Longrightarrow> startsWith s (b # p') \<Longrightarrow> a = b"
  by (cases s) auto

lemma operationType_cases:
  "operationType query =
     (if startsWith (toUpperCase (trim query)) ''DELETE''
         \<or> includes_str (toUpperCase (trim query)) ''TRUNCATE'' then Some DELETE
      else if startsWith (toUpperCase (trim query)) ''UPDATE'' then Some UPDATE
      else if startsWith (toUpperCase (trim query)) ''INSERT'' then Some INSERT
      else if includes_str (toUpperCase (trim query)) ''DROP TABLE'' then Some DROP_TABLE
      else None)"
  by (simp add: operationType_def Let_def)

text \<open>
  C6, as the specification states it, fails: a statement that begins with ALTER TABLE
  is given no kind at all by the write path, not UPDATE.
\<close>

theorem C6_alter_table_not_update:
  "startsWith (toUpperCase (trim ''ALTER TABLE users ADD COLUMN age INT'')) ''ALTER TABLE''
   \<and> operationType ''ALTER TABLE users ADD COLUMN age INT'' = None"
  by code_simp

text \<open>
  C6 (amended): the write path assigns the kind by first match, and each kind is assigned
  to exactly the following text. DELETE: text that starts with DELETE or contains
  TRUNCATE. UPDATE: text that starts with UPDATE and is not DELETE by the first rule.
  INSERT: text that starts with INSERT and is not DELETE. DROP_TABLE: text that contains
  DROP TABLE and is none of the former. No kind: all other text. CREATE_TABLE and
  ROLLBACK are never assigned there. A statement that begins with ALTER TABLE is never
  UPDATE: it is DELETE when it contains TRUNCATE, DROP_TABLE when it contains DROP TABLE,
  and has no kind otherwise. Only the permission gate counts ALTER TABLE as an update: it
  lets the statement pass only with the update permission.
\<close>

theorem C6_operationType_first_match:
  fixes query :: string and perms :: permissions
  shows
  "(operationType query = Some DELETE
      \<longleftrightarrow> startsWith (toUpperCase (trim query)) ''DELETE''
          \<or> includes_str (toUpperCase (trim query)) ''TRUNCATE'')
   \<and> (operationType query = Some UPDATE
        \<longleftrightarrow> startsWith (toUpperCase (trim query)) ''UPDATE''
            \<and> \<not> includes_str (toUpperCase (trim query)) ''TRUNCATE'')
   \<and> (operationType query = Some INSERT
        \<longleftrightarrow> startsWith (toUpperCase (trim query)) ''INSERT''
            \<and> \<not> includes_str (toUpperCase (trim query)) ''TRUNCATE'')
   \<and> (operationType query = Some DROP_TABLE
        \<longleftrightarrow> includes_str (toUpperCase (trim query)) ''DROP TABLE''
            \<and> \<not> startsWith (toUpperCase (trim query)) ''DELETE''
            \<and> \<not> includes_str (toUpperCase (trim query)) ''TRUNCATE''
            \<and> \<not> startsWith (toUpperCase (trim query)) ''UPDATE''
            \<and> \<not> startsWith (toUpperCase (trim query)) ''INSERT'')
   \<and> (operationType query = None
        \<longleftrightarrow> \<not> startsWith (toUpperCase (trim query)) ''DELETE''
            \<and> \<not> includes_str (toUpperCase (trim query)) ''TRUNCATE''
            \<and> \<not> startsWith (toUpperCase (trim query)) ''UPDATE''
            \<and> \<not> startsWith (toUpperCase (trim query)) ''INSERT''
            \<and> \<not> includes_str (toUpperCase (trim query)) ''DROP TABLE'')
   \<and> operationType query \<noteq> Some CREATE_TABLE
   \<and> operationType query \<noteq> Some ROLLBACK
   \<and> (startsWith (toUpperCase (trim query)) ''ALTER TABLE'' \<longrightarrow>
        operationType query \<noteq> Some UPDATE
        \<and> operationType query =
            (if includes_str (toUpperCase (trim query)) ''TRUNCATE'' then Some DELETE
             else if includes_str (toUpperCase (trim query)) ''DROP TABLE'' then Some DROP_TABLE
             else None)
        \<and> (checkQueryPermissions perms query = Inr True \<longrightarrow> allowUpdate perms))"
proof -
  let ?n = "toUpperCase (trim query)"
  have du: "startsWith ?n ''UPDATE'' \<Longrightarrow> \<not> startsWith ?n ''DELETE''"
    using startsWith_first_char by fastforce
  have iu: "startsWith ?n ''INSERT'' \<Longrightarrow> \<not> startsWith ?n ''UPDATE''"
    using startsWith_first_char by fastforce
  have di: "startsWith ?n ''INSERT'' \<Longrightarrow> \<not> startsWith ?n ''DELETE''"
    using startsWith_first_char by fastforce
  have a: "startsWith ?n ''ALTER TABLE'' \<Longrightarrow>
             \<not> startsWith ?n ''DELETE'' \<and> \<not> startsWith ?n ''UPDATE'' \<and> \<not> startsWith ?n ''INSERT''"
    using startsWith_first_char by fastforce
  have p: "startsWith ?n ''ALTER TABLE'' \<Longrightarrow> checkQueryPermissions perms query = Inr True
             \<Longrightarrow> allowUpdate perms"
    using startsWith_includes_str [of ?n "''ALTER TABLE''"]
    by (simp add: checkQueryPermissions_def Let_def split: if_splits)
  show ?thesis
    unfolding operationType_cases using du iu di a p by auto
qed

theorem C6_operationType_first_match_witness:
  "operationType ''alter table t truncate partition p0'' = Some DELETE
   \<and> operationType ''ALTER TABLE users ADD COLUMN age INT'' \<noteq> Some UPDATE
   \<and> operationType ''ALTER TABLE users ADD COLUMN age INT'' = None
   \<and> operationType ''SELECT * FROM t'' = None
   \<and> checkQueryPermissions \<lparr>allowInsert = False, allowUpdate = True, allowDelete = False\<rparr>
        ''ALTER TABLE users ADD COLUMN age INT'' = Inr True
   \<and> allowUpdate \<lparr>allowInsert = False, allowUpdate = True, allowDelete = False\<rparr>"
proof -
  have h1: "startsWith (toUpperCase (trim ''alter table t truncate partition p0'')) ''ALTER TABLE''"
    by code_simp
  have h2: "includes_str (toUpperCase (trim ''alter table t truncate partition p0'')) ''TRUNCATE''"
    by code_simp
  have h3: "startsWith (toUpperCase (trim ''ALTER TABLE users ADD COLUMN age INT'')) ''ALTER TABLE''"
    by code_simp
  have h4: "checkQueryPermissions \<lparr>allowInsert = False, allowUpdate = True, allowDelete = False\<rparr>
              ''ALTER TABLE users ADD COLUMN age INT'' = Inr True"
    by code_simp
  have h5: "\<not> includes_str (toUpperCase (trim ''ALTER TABLE users ADD COLUMN age INT'')) ''TRUNCATE''"
    "\<not> includes_str (toUpperCase (trim ''ALTER TABLE users ADD COLUMN age INT'')) ''DROP TABLE''"
    by code_simp+
  have h6: "\<not> startsWith (toUpperCase (trim ''SELECT * FROM t'')) ''DELETE''"
    "\<not> includes_str (toUpperCase (trim ''SELECT * FROM t'')) ''TRUNCATE''"
    "\<not> startsWith (toUpperCase (trim ''SELECT * FROM t'')) ''UPDATE''"
    "\<not> startsWith (toUpperCase (trim ''SELECT * FROM t'')) ''INSERT''"
    "\<not> includes_str (toUpperCase (trim ''SELECT * FROM t'')) ''DROP TABLE''"
    by code_simp+
  show ?thesis
    using h1 h2 h3 h4 h5 h6
      C6_operationType_first_match [of "''alter table t truncate partition p0''"]
      C6_operationType_first_match [of "''ALTER TABLE users ADD COLUMN age INT''"
         "\<lparr>allowInsert = False, allowUpdate = True, allowDelete = False\<rparr>"]
      C6_operationType_first_match [of "''SELECT * FROM t''"]
    by simp
qed

section \<open>Properties of the write path\<close>

text \<open>
  C1: when the statement is classified DELETE, UPDATE or DROP_TABLE and its table is
  found, and \<open>createBackup\<close> throws, then \<open>handleQuery\<close> logs the failure and still
  sends the statement to the executor, on the state the failed backup left; what it
  returns or throws is the outcome of the statement, not of the backup.
\<close>

theorem C1_backup_failure_does_not_block_write:
  assumes "checkQueryPermissions (permissions e) query = Inr True"
    and "connectError e = None"
    and "operationType query = Some operation"
    and "operation = DELETE \<or> operation = UPDATE \<or> operation = DROP_TABLE"
    and "extractTableFromQuery query = Some t"
    and "createBackup e operation query (Some t) None True w = (Inl m, w1)"
    and "execute e (db w1) query [] = (r, d')"
  shows "snd (handleQuery e query w) =
           w1\<lparr>console := console w1 @ [''Backup failed: '' @ m], db := d',
              issued := issued w1 @ [(query, [], is_ok r)]\<rparr>
         \<and> fst (handleQuery e query w) =
             (case r of
                Inl m' \<Rightarrow> Inl m'
              | Inr rows \<Rightarrow> Inr \<lparr> content_text = result_text e rows, isError = False \<rparr>)"
  using assms
  by (auto simp: handleQuery_def backup_before_def backup_after_def run_sql_def log_error_def
      split: sum.splits)

theorem C1_backup_failure_does_not_block_write_witness:
  "issued (snd (handleQuery (example_env (Some 0) []) ''DELETE FROM t WHERE id = 1'' (example_world [])))
     = [(''SELECT * FROM t WHERE id = 1'', [], False), (''DELETE FROM t WHERE id = 1'', [], True)]
   \<and> console (snd (handleQuery (example_env (Some 0) []) ''DELETE FROM t WHERE id = 1'' (example_world [])))
     = [''Backup creation failed: statement refused'', ''Backup failed: statement refused'']
   \<and> fst (handleQuery (example_env (Some 0) []) ''DELETE FROM t WHERE id = 1'' (example_world []))
     = Inr \<lparr> content_text = ''Query executed successfully. Affected rows: 1'', isError = False \<rparr>"
proof -
  let ?e = "example_env (Some 0) []"
  let ?q = "''DELETE FROM t WHERE id = 1''"
  let ?w1 = "\<lparr> db = 1::nat, issued = [(''SELECT * FROM t WHERE id = 1'', [], False)],
               versionDB = Some [], seq = 0,
               console = [''Backup creation failed: statement refused''] \<rparr>"
  have p: "checkQueryPermissions (permissions ?e) ?q = Inr True"
    by (simp add: example_defs write_defs)
  have c: "connectError ?e = None"
    by (simp add: example_defs)
  have k: "operationType ?q = Some DELETE"
    by (simp add: write_defs)
  have t: "extractTableFromQuery ?q = Some ''t''"
    by (simp add: write_defs)
  have b: "createBackup ?e DELETE ?q (Some ''t'') None True (example_world [])
             = (Inl ''statement refused'', ?w1)"
    by (simp add: example_defs write_defs restore_defs)
  have x: "execute ?e (db ?w1) ?q [] = (Inr (Header 1 0), 2)"
    by (simp add: example_defs)
  show ?thesis
    using C1_backup_failure_does_not_block_write [OF p c k _ t b x]
    by (simp add: is_ok_def result_text_def show_int_def digits.simps)
qed

lemma find_append_last:
  "find P (xs @ [x]) = (case find P xs of Some y \<Rightarrow> Some y | None \<Rightarrow> if P x then Some x else None)"
  by (induction xs) auto

lemma find_none_fresh:
  "\<forall>(j, u) \<in> set vs. j \<le> n \<Longrightarrow> int n < k \<Longrightarrow> find (\<lambda>(i, v). int i = k) vs = None"
  by (induction vs) auto

lemma get_version_appended:
  assumes "\<forall>(j, u) \<in> set vs. j \<le> n"
  shows "get_version (vs @ [(Suc n, v)]) (int (Suc n)) = Some (Suc n, v)"
proof -
  have "find (\<lambda>(i, v). int i = int (Suc n)) vs = None"
    by (rule find_none_fresh [OF assms]) simp
  then show ?thesis
    unfolding get_version_def find_append_last by simp
qed

lemma bit_length_le: "n < 2 ^ k \<Longrightarrow> bit_length n \<le> k"
proof (induction k arbitrary: n)
  case 0
  then show ?case by (simp add: bit_length.simps)
next
  case (Suc k)
  show ?case
  proof (cases "n = 0")
    case True
    then show ?thesis by (simp add: bit_length.simps)
  next
    case False
    have "n div 2 < 2 ^ k"
      using Suc.prems by simp
    then have "bit_length (n div 2) \<le> k"
      by (rule Suc.IH)
    with False show ?thesis
      by (subst bit_length.simps) simp
  qed
qed

lemma bit_length_values:
  "bit_length 9007199254740991 = 53"
  "bit_length 9007199254740992 = 54"
  "bit_length 9007199254740993 = 54"
  by (simp_all add: bit_length.simps)

lemma to_double_exact:
  assumes "\<bar>x\<bar> \<le> 2 ^ 53"
  shows "to_double x = x"
proof (cases "\<bar>x\<bar> = 2 ^ 53")
  case True
  then have "x = 9007199254740992 \<or> x = - 9007199254740992"
    by auto
  moreover have "to_double 9007199254740992 = 9007199254740992"
    by (simp add: to_double_def Let_def bit_length_values)
  moreover have "to_double (- 9007199254740992) = - 9007199254740992"
    by (simp add: to_double_def Let_def bit_length_values)
  ultimately show ?thesis
    by auto
next
  case False
  with assms have "nat \<bar>x\<bar> < 2 ^ 53"
    by (simp add: nat_less_iff)
  then have "bit_length (nat \<bar>x\<bar>) - 53 = 0"
    using bit_length_le by fastforce
  then show ?thesis
    by (simp add: to_double_def Let_def mult_sgn_abs)
qed

lemma range_end_exact:
  assumes "0 \<le> i" and "0 \<le> n" and "i + n \<le> 2 ^ 53"
  shows "js_sub (js_add i n) 1 = i + n - 1"
proof -
  have "js_add i n = i + n"
    unfolding js_add_def using assms by (intro to_double_exact) simp
  moreover have "to_double (i + n - 1) = i + n - 1"
    using assms by (intro to_double_exact) simp
  ultimately show ?thesis
    by (simp add: js_sub_def)
qed

text \<open>
  C3, as the specification states it, fails: the end of the range is computed with
  JavaScript numbers. For an INSERT of \<open>2\<close> rows whose first identity is \<open>2^53 - 1\<close> the sum
  is rounded, the stored range is \<open>(2^53 - 1, 2^53 - 1)\<close> and not \<open>(2^53 - 1, 2^53)\<close>, and
  the rollback sends a single-row delete.
\<close>

theorem C3_range_end_is_rounded:
  "id_ranges (snd (createBackup (example_env None []) INSERT ''INSERT INTO t (name) VALUES (1), (2)''
                     (Some ''t'') (Some (Header 2 9007199254740991)) True (example_world [])))
     = [Some (9007199254740991, 9007199254740991)]
   \<and> (9007199254740991 :: int) + 2 - 1 = 9007199254740992
   \<and> issued (snd (handleRollbackToVersion (example_env None []) 1
        (snd (createBackup (example_env None []) INSERT ''INSERT INTO t (name) VALUES (1), (2)''
                (Some ''t'') (Some (Header 2 9007199254740991)) True (example_world [])))))
     = [(''DELETE FROM t WHERE id = ?'', [VNum 9007199254740991], True)]"
  by (simp add: example_defs write_defs restore_defs id_ranges_def js_add_def js_sub_def
      to_double_def bit_length_values)

text \<open>
  C3 (amended): for an INSERT whose result header reports \<open>n \<ge> 0\<close> affected rows and the
  identity \<open>i \<ge> 0\<close> with \<open>i + n \<le> 2^53\<close>, where the arithmetic of JavaScript numbers is
  exact, with some write permission set and the ledger open, \<open>createBackup\<close> appends one
  record whose payload has the id range \<open>(i, i + n - 1)\<close> when an identity was generated
  (\<open>i \<noteq> 0\<close>) and none otherwise. With \<open>n = 1\<close> the range is \<open>(i, i)\<close> and rolling the
  record back sends exactly one statement, the single-row delete bound to \<open>i\<close>; with no
  identity the rollback sends nothing and answers that manual deletion may be required.
\<close>

theorem C3_insert_id_range_and_rollback:
  assumes "allowInsert (permissions e) \<or> allowUpdate (permissions e) \<or> allowDelete (permissions e)"
    and "versionDB w = Some vs"
    and "\<forall>(j, u) \<in> set vs. j \<le> seq w"
    and "connectError e' = None"
    and "0 \<le> i" and "0 \<le> n" and "i + n \<le> 2 ^ 53"
  shows "\<exists>ts b v w'.
           createBackup e INSERT query targetTable (Some (Header n i)) conn w
             = (Inr (Some (ts, Some b, Some n)), w')
           \<and> versionDB w' = Some (vs @ [(Suc (seq w), v)])
           \<and> backup_data v = Some b
           \<and> issued w' = issued w
           \<and> idRange b = (if i \<noteq> 0 then Some (i, i + n - 1) else None)
           \<and> (i \<noteq> 0 \<and> n = 1 \<longrightarrow>
                idRange b = Some (i, i)
                \<and> (\<exists>ok. issued (snd (handleRollbackToVersion e' (int (Suc (seq w))) w'))
                      = issued w @ [(''DELETE FROM '' @ table_str targetTable @ '' WHERE id = ?'',
                                     [VNum i], ok)]))
           \<and> (i = 0 \<longrightarrow>
                idRange b = None
                \<and> issued (snd (handleRollbackToVersion e' (int (Suc (seq w))) w')) = issued w
                \<and> fst (handleRollbackToVersion e' (int (Suc (seq w))) w')
                    = \<lparr> content_text = ''Rollback successful!'' @ [CHR 0x0A] @ manual_msg,
                        isError = False \<rparr>)"
proof -
  define b where
    "b = (new_backupInfo INSERT query)
           \<lparr>info_insertId := Some i, insertedRows := Some n, tableName := targetTable,
            idRange := (if i \<noteq> 0 then Some (i, js_sub (js_add i n) 1) else None)\<rparr>"
  define v where
    "v = \<lparr> session_id = sessionId e, timestamp = make_timestamp (now_iso e) (hrtime e),
           operation_type = INSERT, target_table = targetTable, sql_query = query,
           backup_data = Some b, affected_rows = Some n,
           description = getOperationDescription INSERT targetTable (Some n) \<rparr>"
  define w' where
    "w' = w\<lparr>versionDB := Some (vs @ [(Suc (seq w), v)]), seq := Suc (seq w)\<rparr>"
  have r: "idRange b = (if i \<noteq> 0 then Some (i, i + n - 1) else None)"
    using range_end_exact [OF assms(5,6,7)] by (simp add: b_def)
  have cb: "createBackup e INSERT query targetTable (Some (Header n i)) conn w
              = (Inr (Some (make_timestamp (now_iso e) (hrtime e), Some b, Some n)), w')"
    using assms(1,2)
    by (auto simp: createBackup_def capture_def saveVersion_def Let_def b_def v_def w'_def)
  have l: "versionDB w' = Some (vs @ [(Suc (seq w), v)])" and s: "issued w' = issued w"
    by (simp_all add: w'_def)
  have g: "get_version (vs @ [(Suc (seq w), v)]) (int (Suc (seq w))) = Some (Suc (seq w), v)"
    using get_version_appended [OF assms(3)] .
  have k: "backup_data v = Some b" "operation_type v = INSERT" "target_table v = targetTable"
    by (simp_all add: v_def)
  have single: "i \<noteq> 0 \<Longrightarrow> n = 1 \<Longrightarrow>
      \<exists>ok. issued (snd (handleRollbackToVersion e' (int (Suc (seq w))) w'))
            = issued w @ [(''DELETE FROM '' @ table_str targetTable @ '' WHERE id = ?'', [VNum i], ok)]"
    using l s g k r assms(4)
    by (auto simp: handleRollbackToVersion_def inverse_action_def run_sql_def saveVersion_def
        Let_def error_response_def split: prod.splits sum.splits)
  have manual: "i = 0 \<Longrightarrow>
      issued (snd (handleRollbackToVersion e' (int (Suc (seq w))) w')) = issued w
      \<and> fst (handleRollbackToVersion e' (int (Suc (seq w))) w')
          = \<lparr> content_text = ''Rollback successful!'' @ [CHR 0x0A] @ manual_msg, isError = False \<rparr>"
    using l s g k r assms(4)
    by (auto simp: handleRollbackToVersion_def inverse_action_def saveVersion_def Let_def)
  show ?thesis
    apply (rule exI [of _ "make_timestamp (now_iso e) (hrtime e)"])
    apply (rule exI [of _ b])
    apply (rule exI [of _ v])
    apply (rule exI [of _ w'])
    using cb l s k(1) r single manual by simp
qed

theorem C3_insert_id_range_and_rollback_witness:
  "\<exists>ts b w'.
     createBackup (example_env None []) INSERT ''INSERT INTO t (name) VALUES (1)'' (Some ''t'')
         (Some (Header 1 5)) True (example_world [])
       = (Inr (Some (ts, Some b, Some 1)), w')
     \<and> idRange b = Some (5, 5)
     \<and> (\<exists>ok. issued (snd (handleRollbackToVersion (example_env None []) 1 w'))
            = [(''DELETE FROM t WHERE id = ?'', [VNum 5], ok)])"
proof -
  let ?e = "example_env None []"
  have p: "allowInsert (permissions ?e) \<or> allowUpdate (permissions ?e) \<or> allowDelete (permissions ?e)"
    by (simp add: example_defs)
  have l: "versionDB (example_world []) = Some []"
    by (simp add: example_defs)
  have f: "\<forall>(j, u) \<in> set ([] :: (nat \<times> versionInfo) list). j \<le> seq (example_world [])"
    by simp
  have c: "connectError ?e = None"
    by (simp add: example_defs)
  have s: "int (Suc (seq (example_world []))) = 1" "issued (example_world []) = []"
    by (simp_all add: example_defs)
  have n: "(0::int) \<le> 5" "(0::int) \<le> 1" "(5::int) + 1 \<le> 2 ^ 53"
    by simp_all
  from C3_insert_id_range_and_rollback [OF p l f c n,
      of "''INSERT INTO t (name) VALUES (1)''" "Some ''t''" True]
  obtain ts b w' and v :: versionInfo where
    "createBackup ?e INSERT ''INSERT INTO t (name) VALUES (1)'' (Some ''t'') (Some (Header 1 5))
        True (example_world []) = (Inr (Some (ts, Some b, Some 1)), w')"
    and "idRange b = Some (5, 5)"
    and "\<exists>ok. issued (snd (handleRollbackToVersion ?e 1 w'))
            = [(''DELETE FROM t WHERE id = ?'', [VNum 5], ok)]"
    unfolding s by (auto simp: table_str_def)
  then show ?thesis
    by blast
qed

text \<open>
  C4 fails on the code. \<open>DELETE FROM nowhere\<close> has no WHERE clause, yet its text contains
  \<open>where\<close>; the clause pattern then finds nothing, the \<open>if (whereMatch)\<close> has no other
  branch, and no snapshot query is sent: the record is written with a null payload and the
  table is emptied with nothing to restore it from.
\<close>

theorem C4_substring_where_skips_snapshot:
  "includes_str (toLowerCase ''DELETE FROM nowhere'') ''where''
   \<and> whereMatch ''DELETE FROM nowhere'' = None
   \<and> operationType ''DELETE FROM nowhere'' = Some DELETE
   \<and> extractTableFromQuery ''DELETE FROM nowhere'' = Some ''nowhere''
   \<and> issued (snd (handleQuery (example_env None three_rows) ''DELETE FROM nowhere'' (example_world [])))
       = [(''DELETE FROM nowhere'', [], True)]
   \<and> payloads (snd (handleQuery (example_env None three_rows) ''DELETE FROM nowhere'' (example_world [])))
       = [None]"
  by (simp add: example_defs write_defs restore_defs)

text \<open>
  The branch that the statement above misses: when the text does not contain \<open>where\<close> in
  any letter case, the snapshot query is \<open>SELECT * FROM\<close> the table with no filter, and
  the record appended holds the rows of the answer (as JSON) and their number.
\<close>

lemma createBackup_without_where_text:
  assumes "operation = DELETE \<or> operation = UPDATE"
    and "\<not> includes_str (toLowerCase query) ''where''"
    and "allowInsert (permissions e) \<or> allowUpdate (permissions e) \<or> allowDelete (permissions e)"
    and "versionDB w = Some vs"
    and "execute e (db w) (''SELECT * FROM '' @ table_str targetTable) [] = (Inr (Rows rows), d')"
  shows "\<exists>v b.
           createBackup e operation query targetTable None True w =
             (Inr (Some (make_timestamp (now_iso e) (hrtime e), Some b, Some (int (length rows)))),
              w\<lparr>db := d',
                issued := issued w @ [(''SELECT * FROM '' @ table_str targetTable, [], True)],
                versionDB := Some (vs @ [(Suc (seq w), v)]), seq := Suc (seq w)\<rparr>)
           \<and> operation_type v = operation
           \<and> backup_data v = Some b
           \<and> affected_rows v = Some (int (length rows))
           \<and> (if operation = DELETE then deletedRows b else originalRows b)
               = Some (map toJSON_row rows)"
  using assms
  by (auto simp: createBackup_def capture_def backupQuery_def run_sql_def saveVersion_def
      is_ok_def Let_def new_backupInfo_def array_of_def toJSON_result_def length_of_def)

section \<open>Timestamps of the ledger\<close>

text \<open>
  C5 fails on the code, which itself lists the history by \<open>ORDER BY timestamp DESC\<close>:
  the last six digits come from the monotonic clock, whose milliseconds are not those of
  the wall clock. A rollback marker written 50 microseconds after a DELETE record, in the
  same wall-clock millisecond, gets the smaller timestamp.
\<close>

theorem C5_later_record_sorts_first:
  "timestamps two_clock_run
     = [''2024-01-02 03:04:05.123980000'', ''2024-01-02 03:04:05.123030000'']
   \<and> (73001980000 :: nat) \<le> 73002030000
   \<and> \<not> str_le ''2024-01-02 03:04:05.123980000'' ''2024-01-02 03:04:05.123030000''"
  by (simp add: example_defs write_defs restore_defs toJSON_row_def)

section \<open>Properties of the restore path\<close>

lemma run_sql_ledger:
  "run_sql e q ps w = (r, w') \<Longrightarrow> ledger_part w' = ledger_part w"
  by (auto simp: run_sql_def ledger_part_def split: prod.splits)

lemma insert_rows_ledger:
  "insert_rows e tbl rows w = (r, w') \<Longrightarrow> ledger_part w' = ledger_part w"
proof (induction rows arbitrary: w)
  case Nil
  then show ?case by simp
next
  case (Cons x xs)
  then show ?case
    by (auto split: sum.splits prod.splits dest!: run_sql_ledger)
qed

lemma update_rows_ledger:
  "update_rows e tbl rows w = (r, w') \<Longrightarrow> ledger_part w' = ledger_part w"
proof (induction rows arbitrary: w)
  case Nil
  then show ?case by simp
next
  case (Cons x xs)
  then show ?case
    by (auto split: sum.splits prod.splits option.splits if_splits dest!: run_sql_ledger)
qed

lemma inverse_action_ledger:
  assumes "inverse_action e v b w = (r, w')"
  shows "ledger_part w' = ledger_part w"
proof (cases "operation_type v")
  case INSERT
  with assms show ?thesis
    by (auto simp: inverse_action_def Let_def split: option.splits prod.splits sum.splits if_splits
        dest!: run_sql_ledger)
next
  case UPDATE
  with assms show ?thesis
    by (auto simp: inverse_action_def Let_def split: option.splits prod.splits sum.splits if_splits
        dest!: update_rows_ledger)
next
  case DELETE
  with assms show ?thesis
    by (auto simp: inverse_action_def Let_def split: option.splits prod.splits sum.splits if_splits
        dest!: insert_rows_ledger)
next
  case CREATE_TABLE
  with assms show ?thesis
    by (auto simp: inverse_action_def Let_def split: option.splits prod.splits sum.splits if_splits
        dest!: run_sql_ledger)
next
  case DROP_TABLE
  with assms show ?thesis
    by (auto simp: inverse_action_def Let_def
        split: option.splits prod.splits sum.splits if_splits val.splits
        dest!: run_sql_ledger insert_rows_ledger)
next
  case ROLLBACK
  with assms show ?thesis
    by (simp add: inverse_action_def)
qed

text \<open>
  C7: when the version id matches no ledger row, or the row matched has a null payload,
  \<open>handleRollbackToVersion\<close> answers with an error and leaves the whole state as it was:
  no statement is sent, no line is logged and no row, hence no ROLLBACK marker, is
  appended.
\<close>

theorem C7_unknown_or_empty_version_changes_nothing:
  assumes "versionDB w = Some vs"
    and "get_version vs version_id = None
         \<or> (\<exists>i v. get_version vs version_id = Some (i, v) \<and> backup_data v = None)"
  shows "snd (handleRollbackToVersion e version_id w) = w
         \<and> isError (fst (handleRollbackToVersion e version_id w))
         \<and> content_text (fst (handleRollbackToVersion e version_id w)) =
             (if get_version vs version_id = None
              then ''Version '' @ show_int version_id @ '' not found.''
              else ''Version '' @ show_int version_id @ '' has no backup data to restore.'')"
  using assms
  by (auto simp: handleRollbackToVersion_def error_response_def)

theorem C7_unknown_or_empty_version_changes_nothing_witness:
  "snd (handleRollbackToVersion (example_env None []) 7
          (example_world [(1, example_version ROLLBACK ''ROLLBACK TO VERSION 3'' None)]))
     = example_world [(1, example_version ROLLBACK ''ROLLBACK TO VERSION 3'' None)]
   \<and> content_text (fst (handleRollbackToVersion (example_env None []) 7
          (example_world [(1, example_version ROLLBACK ''ROLLBACK TO VERSION 3'' None)])))
     = ''Version 7 not found.''
   \<and> snd (handleRollbackToVersion (example_env None []) 1
          (example_world [(1, example_version ROLLBACK ''ROLLBACK TO VERSION 3'' None)]))
     = example_world [(1, example_version ROLLBACK ''ROLLBACK TO VERSION 3'' None)]
   \<and> content_text (fst (handleRollbackToVersion (example_env None []) 1
          (example_world [(1, example_version ROLLBACK ''ROLLBACK TO VERSION 3'' None)])))
     = ''Version 1 has no backup data to restore.''"
proof -
  let ?vs = "[(1::nat, example_version ROLLBACK ''ROLLBACK TO VERSION 3'' None)]"
  have db: "versionDB (example_world ?vs) = Some ?vs"
    by (simp add: example_world_def)
  have g7: "get_version ?vs 7 = None"
    by (simp add: get_version_def)
  have g1: "get_version ?vs 1 = Some (1, example_version ROLLBACK ''ROLLBACK TO VERSION 3'' None)"
    by (simp add: get_version_def)
  have b1: "backup_data (example_version ROLLBACK ''ROLLBACK TO VERSION 3'' None) = None"
    by (simp add: example_version_def)
  have s7: "show_int 7 = ''7''" and s1: "show_int 1 = ''1''"
    by (simp_all add: show_int_def digits.simps)
  show ?thesis
    using C7_unknown_or_empty_version_changes_nothing [OF db, of 7 "example_env None []"]
      C7_unknown_or_empty_version_changes_nothing [OF db, of 1 "example_env None []"]
      g7 g1 b1 s7 s1
    by simp
qed


lemma convert_values_map:
  "convert_values e vs = Inr vals \<Longrightarrow> vals = map (bound_value e) vs"
  by (induction vs arbitrary: vals) (auto simp: bound_value_def split: sum.splits)


lemma insert_statement_row:
  "convert_values e (map snd r) = Inr vals \<Longrightarrow>
     (insertSQL tbl (map fst r), vals) = insert_statement e tbl r"
  by (auto simp: insert_statement_def insertSQL_def comp_def case_prod_unfold
      dest!: convert_values_map)

lemma set_clause_columns:
  "map (\<lambda>c. c @ '' = ?'') (filter (\<lambda>c. c \<noteq> ''id'') (map fst r))
     = map (\<lambda>(c, v). c @ '' = ?'') (filter (\<lambda>(c, v). c \<noteq> ''id'') r)"
  by (induction r) auto

lemma update_values_row:
  "map snd (filter (\<lambda>(c, v). c \<noteq> ''id'') (zip (map fst r) (map (bound_value e \<circ> snd) r)))
     = map (\<lambda>(c, v). bound_value e v) (filter (\<lambda>(c, v). c \<noteq> ''id'') r)"
  by (induction r) auto

lemma update_statement_row:
  "convert_values e (map snd r) = Inr vals \<Longrightarrow> map_of r ''id'' = Some idv \<Longrightarrow>
     (updateSQL tbl (map fst r), updateValues (map fst r) vals idv) = update_statement e tbl r"
  by (auto simp: update_statement_def updateSQL_def updateValues_def set_clause_columns
      update_values_row dest!: convert_values_map)








text \<open>
  A rollback that does not fail sends the whole plan, every statement accepted, and
  nothing else.
\<close>

lemma run_sql_accepted:
  "run_sql e (fst s) (snd s) w = (Inr x, w1) \<Longrightarrow>
     snd (run_sql e (fst s) (snd s) w) = w1 \<and> issued w1 = issued w @ [accepted s]"
  by (auto simp: run_sql_def is_ok_def accepted_def split: prod.splits)

lemma insert_rows_completed:
  "insert_rows e tbl rows w = (Inr u, w') \<Longrightarrow>
     w' = run_plan e (map (insert_statement e tbl) rows) w
     \<and> issued w' = issued w @ map accepted (map (insert_statement e tbl) rows)"
proof (induction rows arbitrary: w)
  case Nil
  then show ?case by simp
next
  case (Cons r rs)
  from Cons.prems obtain vals where vals: "convert_values e (map snd r) = Inr vals"
    by (cases "convert_values e (map snd r)") auto
  note st = insert_statement_row [OF vals, of tbl]
  from Cons.prems vals obtain x w1 where
    step: "run_sql e (insertSQL tbl (map fst r)) vals w = (Inr x, w1)"
    and rest: "insert_rows e tbl rs w1 = (Inr u, w')"
    by (auto split: prod.splits sum.splits)
  have "run_sql e (fst (insert_statement e tbl r)) (snd (insert_statement e tbl r)) w = (Inr x, w1)"
    using step st by (metis fst_conv snd_conv)
  from run_sql_accepted [OF this] Cons.IH [OF rest] show ?case
    by auto
qed

lemma update_rows_completed:
  "update_rows e tbl rows w = (Inr u, w') \<Longrightarrow>
     w' = run_plan e (map (update_statement e tbl) (filter restorable rows)) w
     \<and> issued w' = issued w @ map accepted (map (update_statement e tbl) (filter restorable rows))"
proof (induction rows arbitrary: w)
  case Nil
  then show ?case by simp
next
  case (Cons r rs)
  from Cons.prems obtain vals where vals: "convert_values e (map snd r) = Inr vals"
    by (cases "convert_values e (map snd r)") auto
  show ?case
  proof (cases "restorable r")
    case False
    then have "update_rows e tbl (r # rs) w = update_rows e tbl rs w"
      using vals by (simp add: restorable_def split: option.splits)
    with Cons.prems have "update_rows e tbl rs w = (Inr u, w')"
      by simp
    from Cons.IH [OF this] False show ?thesis
      by auto
  next
    case True
    then obtain idv where idv: "map_of r ''id'' = Some idv" "truthy idv"
      by (auto simp: restorable_def split: option.splits)
    note st = update_statement_row [OF vals idv(1), of tbl]
    from Cons.prems vals idv obtain x w1 where
      step: "run_sql e (updateSQL tbl (map fst r)) (updateValues (map fst r) vals idv) w = (Inr x, w1)"
      and rest: "update_rows e tbl rs w1 = (Inr u, w')"
      by (auto split: prod.splits sum.splits)
    have "run_sql e (fst (update_statement e tbl r)) (snd (update_statement e tbl r)) w = (Inr x, w1)"
      using step st by (metis fst_conv snd_conv)
    from run_sql_accepted [OF this] Cons.IH [OF rest] True show ?thesis
      by auto
  qed
qed

lemma inverse_action_completed:
  assumes "inverse_action e v b w = (Inr result, w')"
  shows "w' = run_plan e (planned_statements e v b) w
         \<and> issued w' = issued w @ map accepted (planned_statements e v b)"
proof (cases "operation_type v")
  case INSERT
  with assms show ?thesis
    by (auto simp: inverse_action_def planned_statements_def Let_def run_sql_def is_ok_def
        accepted_def split: option.splits prod.splits sum.splits if_splits)
next
  case UPDATE
  with assms show ?thesis
    by (auto simp: inverse_action_def planned_statements_def Let_def
        split: option.splits prod.splits sum.splits if_splits
        dest!: update_rows_completed)
next
  case DELETE
  with assms show ?thesis
    by (auto simp: inverse_action_def planned_statements_def Let_def
        split: option.splits prod.splits sum.splits if_splits
        dest!: insert_rows_completed)
next
  case CREATE_TABLE
  with assms show ?thesis
    by (auto simp: inverse_action_def planned_statements_def Let_def run_sql_def is_ok_def
        accepted_def split: option.splits prod.splits sum.splits if_splits)
next
  case DROP_TABLE
  with assms show ?thesis
    by (auto simp: inverse_action_def planned_statements_def Let_def run_sql_def is_ok_def
        accepted_def split: option.splits prod.splits sum.splits if_splits val.splits
        dest!: insert_rows_completed)
next
  case ROLLBACK
  with assms show ?thesis
    by (simp add: inverse_action_def planned_statements_def)
qed



text \<open>
  C9: when the inverse action completes without error, the ledger after the rollback is
  the ledger before it followed by exactly one row, of kind ROLLBACK, with a null payload,
  whose SQL text and description name the version id; the response is the success
  message.
\<close>

theorem C9_rollback_appends_one_marker:
  assumes "versionDB w = Some vs"
    and "get_version vs version_id = Some (i, v)"
    and "backup_data v = Some b"
    and "connectError e = None"
    and "inverse_action e v b w = (Inr result, w')"
  shows "handleRollbackToVersion e version_id w =
           (\<lparr> content_text = ''Rollback successful!'' @ [CHR 0x0A] @ result, isError = False \<rparr>,
            w'\<lparr>versionDB := Some (vs @ [(Suc (seq w), rollback_marker e v version_id)]),
               seq := Suc (seq w)\<rparr>)
         \<and> versionDB w' = Some vs
         \<and> operation_type (rollback_marker e v version_id) = ROLLBACK
         \<and> backup_data (rollback_marker e v version_id) = None
         \<and> sql_query (rollback_marker e v version_id) = ''ROLLBACK TO VERSION '' @ show_int version_id
         \<and> description (rollback_marker e v version_id) = ''Rollback to version '' @ show_int version_id"
  using assms inverse_action_ledger [OF assms(5)]
  by (simp add: handleRollbackToVersion_def ledger_part_def saveVersion_def rollback_marker_def)

theorem C9_rollback_appends_one_marker_witness:
  "handleRollbackToVersion (example_env None []) 1 (inserted_one (Some 5)) =
     (\<lparr> content_text = ''Rollback successful!'' @ [CHR 0x0A]
           @ ''Deleted inserted row with id 5 from table '' @ quote ''t'',
        isError = False \<rparr>,
      \<lparr> db = 1, issued = [(''DELETE FROM t WHERE id = ?'', [VNum 5], True)],
        versionDB =
          Some [(1, example_version INSERT ''INSERT INTO t (name) VALUES (1)''
                      (Some (inserted_payload (Some 5)))),
                (2, \<lparr> session_id = ''session-1'', timestamp = ''2024-01-02 03:04:05.123980000'',
                      operation_type = ROLLBACK, target_table = Some ''t'',
                      sql_query = ''ROLLBACK TO VERSION 1'', backup_data = None,
                      affected_rows = Some 0, description = ''Rollback to version 1'' \<rparr>)],
        seq = 2, console = [] \<rparr>)"
proof -
  let ?e = "example_env None []"
  let ?v = "example_version INSERT ''INSERT INTO t (name) VALUES (1)'' (Some (inserted_payload (Some 5)))"
  let ?w1 = "\<lparr> db = 1::nat, issued = [(''DELETE FROM t WHERE id = ?'', [VNum 5], True)],
               versionDB = Some [(1, ?v)], seq = 1, console = [] \<rparr>"
  have l: "versionDB (inserted_one (Some 5)) = Some [(1, ?v)]"
    by (simp add: inserted_one_def example_world_def)
  have g: "get_version [(1, ?v)] 1 = Some (1, ?v)"
    by (simp add: get_version_def)
  have b: "backup_data ?v = Some (inserted_payload (Some 5))"
    by (simp add: example_version_def)
  have c: "connectError ?e = None"
    by (simp add: example_env_def)
  have a: "inverse_action ?e ?v (inserted_payload (Some 5)) (inserted_one (Some 5))
             = (Inr (''Deleted inserted row with id 5 from table '' @ quote ''t''), ?w1)"
    by (simp add: example_defs restore_defs)
  have m: "rollback_marker ?e ?v 1 =
             \<lparr> session_id = ''session-1'', timestamp = ''2024-01-02 03:04:05.123980000'',
               operation_type = ROLLBACK, target_table = Some ''t'',
               sql_query = ''ROLLBACK TO VERSION 1'', backup_data = None,
               affected_rows = Some 0, description = ''Rollback to version 1'' \<rparr>"
    by (simp add: example_defs restore_defs make_timestamp_def slice_last_def)
  show ?thesis
    using C9_rollback_appends_one_marker [OF l g b c a]
    by (simp add: m inserted_one_def example_world_def)
qed

text \<open>
  C10: for a record with a payload whose inverse action sends no statement (an INSERT
  without id range, a DELETE with no deleted rows, an UPDATE with no original rows), and a
  connection that opens, the rollback changes nothing but the ledger, to which it appends
  the ROLLBACK marker, and answers \<open>Rollback successful!\<close>.
\<close>

theorem C10_empty_inverse_still_succeeds:
  assumes "versionDB w = Some vs"
    and "get_version vs version_id = Some (i, v)"
    and "backup_data v = Some b"
    and "connectError e = None"
    and "operation_type v = INSERT \<and> idRange b = None
         \<or> operation_type v = DELETE \<and> deletedRows b = Some []
         \<or> operation_type v = UPDATE \<and> originalRows b = Some []"
  shows "handleRollbackToVersion e version_id w =
           (\<lparr> content_text = ''Rollback successful!'' @ [CHR 0x0A]
                  @ (if operation_type v = INSERT then manual_msg else []),
              isError = False \<rparr>,
            w\<lparr>versionDB := Some (vs @ [(Suc (seq w), rollback_marker e v version_id)]),
              seq := Suc (seq w)\<rparr>)
         \<and> operation_type (rollback_marker e v version_id) = ROLLBACK"
  using assms
  by (auto simp: handleRollbackToVersion_def inverse_action_def saveVersion_def rollback_marker_def)

theorem C10_empty_inverse_still_succeeds_witness:
  "handleRollbackToVersion (example_env None []) 1 (inserted_one None) =
     (\<lparr> content_text = ''Rollback successful!'' @ [CHR 0x0A] @ manual_msg, isError = False \<rparr>,
      (inserted_one None)
        \<lparr>versionDB :=
           Some [(1, example_version INSERT ''INSERT INTO t (name) VALUES (1)''
                       (Some (inserted_payload None))),
                 (2, rollback_marker (example_env None [])
                       (example_version INSERT ''INSERT INTO t (name) VALUES (1)''
                          (Some (inserted_payload None))) 1)],
         seq := 2\<rparr>)
   \<and> issued (inserted_one None) = []"
proof -
  let ?e = "example_env None []"
  let ?v = "example_version INSERT ''INSERT INTO t (name) VALUES (1)'' (Some (inserted_payload None))"
  have l: "versionDB (inserted_one None) = Some [(1, ?v)]"
    by (simp add: inserted_one_def example_world_def)
  have g: "get_version [(1, ?v)] 1 = Some (1, ?v)"
    by (simp add: get_version_def)
  have b: "backup_data ?v = Some (inserted_payload None)"
    by (simp add: example_version_def)
  have c: "connectError ?e = None"
    by (simp add: example_env_def)
  have k: "operation_type ?v = INSERT \<and> idRange (inserted_payload None) = None"
    by (simp add: example_version_def inserted_payload_def)
  show ?thesis
    using C10_empty_inverse_still_succeeds [OF l g b c disjI1 [OF k]] k
    by (simp add: inserted_one_def example_world_def)
qed

text \<open>
  C8 fails on the code. A row image whose \<open>id\<close> is \<open>0\<close> carries an \<open>id\<close>, yet the test
  \<open>if (row.id)\<close> takes it for a row without one: the rollback of the UPDATE record sends
  nothing and still answers that one row was restored. The same row image in a DELETE
  record is restored by the sibling path.
\<close>

theorem C8_zero_id_row_is_skipped:
  "map_of [(''id'', VNum 0), (''name'', VStr ''a'')] ''id'' = Some (VNum 0)
   \<and> fst (handleRollbackToVersion (example_env None [])  1
            (updated_world [[(''id'', VNum 0), (''name'', VStr ''a'')]]))
       = \<lparr> content_text = ''Rollback successful!'' @ [CHR 0x0A]
               @ ''Restored 1 rows to original state in table '' @ quote ''t'',
           isError = False \<rparr>
   \<and> issued (snd (handleRollbackToVersion (example_env None []) 1
                    (updated_world [[(''id'', VNum 0), (''name'', VStr ''a'')]]))) = []
   \<and> issued (snd (handleRollbackToVersion (example_env None []) 1
                    (deleted_world [[(''id'', VNum 0), (''name'', VStr ''a'')]])))
       = [(''INSERT INTO t (id, name) VALUES (?, ?)'', [VNum 0, VStr ''a''], True)]"
  by (simp add: example_defs restore_defs)

end
